theory Spec2Isabelle
  imports Main "HOL-Library.AList"
begin

section \<open>Python values\<close>

text \<open>
  The handlers of \<^verbatim>\<open>main.py\<close> read a JSON object from the request, bind its members
  to the parameters of SQL statements and answer with a JSON object. The model keeps the
  JSON values the two tables can hold: null (Python's \<^verbatim>\<open>None\<close>), integers and strings.
  A Python dictionary is an association list in which the first binding of a key counts.
\<close>

datatype json = JNull | JInt int | JStr string

type_synonym dict = "(string \<times> json) list"

datatype exn = KeyError string | MultipleResultsFound | DBAPIError

text \<open>\<^verbatim>\<open>len(d)\<close>: the number of keys.\<close>

definition len :: "dict \<Rightarrow> nat" where
  "len d = length (remdups (map fst d))"

text \<open>\<^verbatim>\<open>d.get(k)\<close>: \<^verbatim>\<open>None\<close> when the key is absent.\<close>

definition get :: "dict \<Rightarrow> string \<Rightarrow> json" where
  "get d k = (case map_of d k of None \<Rightarrow> JNull | Some v \<Rightarrow> v)"

text \<open>\<^verbatim>\<open>d.get(k, default)\<close>.\<close>

definition get_default :: "dict \<Rightarrow> string \<Rightarrow> json \<Rightarrow> json" where
  "get_default d k dflt = (case map_of d k of None \<Rightarrow> dflt | Some v \<Rightarrow> v)"

text \<open>
  A dictionary display \<^verbatim>\<open>{k1: d[k1], k2: d[k2], ...}\<close>: the subscriptions are evaluated
  from left to right and the first absent key raises \<^verbatim>\<open>KeyError\<close>.
\<close>

fun items_of :: "dict \<Rightarrow> string list \<Rightarrow> exn + dict" where
  "items_of d [] = Inr []"
| "items_of d (k # ks) =
     (case map_of d k of
        None \<Rightarrow> Inl (KeyError k)
      | Some v \<Rightarrow> (case items_of d ks of Inl e \<Rightarrow> Inl e | Inr ps \<Rightarrow> Inr ((k, v) # ps)))"

text \<open>\<^verbatim>\<open>str(n)\<close> of an integer: its decimal digits, with a sign when negative.\<close>

definition digit :: "nat \<Rightarrow> char" where
  "digit n = ''0123456789'' ! n"

function str_nat :: "nat \<Rightarrow> string" where
  "str_nat n = (if n < 10 then [digit n] else str_nat (n div 10) @ [digit (n mod 10)])"
  by pat_completeness auto
termination
  by (relation "measure (\<lambda>n. n)") auto

declare str_nat.simps [simp del]

definition str_int :: "int \<Rightarrow> string" where
  "str_int i = (if i < 0 then CHR ''-'' # str_nat (nat (- i)) else str_nat (nat i))"

definition str :: "json \<Rightarrow> string" where
  "str v = (case v of JNull \<Rightarrow> ''None'' | JInt i \<Rightarrow> str_int i | JStr s \<Rightarrow> s)"

section \<open>The relational store\<close>

text \<open>
  The two tables of \<^verbatim>\<open>create_table\<close>. A table is the list of its rows in insertion
  order; \<^verbatim>\<open>id SERIAL\<close> is an unsigned counter that the store advances at each insert, and
  \<^verbatim>\<open>last_insert_id()\<close> is the value it gave last on the connection.
\<close>

record business =
  b_id :: nat
  b_owner_id :: int
  b_name :: string
  b_street_address :: string
  b_city :: string
  b_state :: string
  b_zip_code :: string

record review =
  r_id :: nat
  r_user_id :: int
  r_business_id :: int
  r_stars :: int
  r_review_text :: "string option"

record db =
  businesses :: "business list"
  reviews :: "review list"
  next_business_id :: nat
  next_review_id :: nat
  last_insert_id :: nat

definition create_table :: db where
  "create_table =
     \<lparr>businesses = [], reviews = [], next_business_id = 1, next_review_id = 1,
      last_insert_id = 0\<rparr>"

text \<open>
  What a column accepts. \<^verbatim>\<open>INT\<close> is a signed 32-bit integer, \<^verbatim>\<open>VARCHAR(n)\<close> a string
  of at most \<open>n\<close> characters. The store runs in strict mode: a value that does not
  fit, and null in a \<^verbatim>\<open>NOT NULL\<close> column, abort the statement. The engine's implicit
  conversions between text and numbers are outside the model: a parameter of the other
  type is refused here, whereas the engine would convert a numeric string. The theorems
  that depend on what the store does with a numeric field are therefore stated for
  bodies in which that field is an integer.
\<close>

definition int_column :: "json \<Rightarrow> int option" where
  "int_column v =
     (case v of
        JInt i \<Rightarrow> if - 2147483648 \<le> i \<and> i \<le> 2147483647 then Some i else None
      | _ \<Rightarrow> None)"

definition varchar_column :: "nat \<Rightarrow> json \<Rightarrow> string option" where
  "varchar_column n v =
     (case v of JStr s \<Rightarrow> if length s \<le> n then Some s else None | _ \<Rightarrow> None)"

text \<open>\<^verbatim>\<open>review_text VARCHAR(1000)\<close> has no \<^verbatim>\<open>NOT NULL\<close>: it also accepts null.\<close>

definition nullable_varchar_column :: "nat \<Rightarrow> json \<Rightarrow> string option option" where
  "nullable_varchar_column n v =
     (case v of JNull \<Rightarrow> Some None | _ \<Rightarrow> map_option Some (varchar_column n v))"

text \<open>\<^verbatim>\<open>stars INT NOT NULL CHECK (stars >= 0 AND stars <= 5)\<close>.\<close>

definition stars_column :: "json \<Rightarrow> int option" where
  "stars_column v =
     (case int_column v of
        None \<Rightarrow> None
      | Some i \<Rightarrow> if 0 \<le> i \<and> i \<le> 5 then Some i else None)"

text \<open>A comparison \<^verbatim>\<open>column = :parameter\<close> of an integer column in a \<^verbatim>\<open>WHERE\<close> clause.\<close>

definition sql_eq :: "int \<Rightarrow> json \<Rightarrow> bool" where
  "sql_eq c v = (v = JInt c)"

text \<open>The values of the six columns a business statement sets, from its parameters.\<close>

definition business_values :: "nat \<Rightarrow> dict \<Rightarrow> business option" where
  "business_values i ps =
     Option.bind (int_column (get ps ''owner_id'')) (\<lambda>owner.
     Option.bind (varchar_column 50 (get ps ''name'')) (\<lambda>name.
     Option.bind (varchar_column 100 (get ps ''street_address'')) (\<lambda>street.
     Option.bind (varchar_column 50 (get ps ''city'')) (\<lambda>city.
     Option.bind (varchar_column 2 (get ps ''state'')) (\<lambda>state.
     Option.bind (varchar_column 5 (get ps ''zip_code'')) (\<lambda>zip.
       Some \<lparr>b_id = i, b_owner_id = owner, b_name = name, b_street_address = street,
             b_city = city, b_state = state, b_zip_code = zip\<rparr>))))))"

text \<open>\<^verbatim>\<open>INSERT INTO businesses(owner_id, name, street_address, city, state, zip_code)\<close>.\<close>

definition insert_business :: "dict \<Rightarrow> db \<Rightarrow> exn + db" where
  "insert_business ps s =
     (case business_values (next_business_id s) ps of
        None \<Rightarrow> Inl DBAPIError
      | Some row \<Rightarrow>
          Inr (s\<lparr>businesses := businesses s @ [row],
                 next_business_id := Suc (next_business_id s),
                 last_insert_id := next_business_id s\<rparr>))"

text \<open>\<^verbatim>\<open>SELECT * FROM businesses WHERE id=:business_id\<close>, the id from the route.\<close>

definition select_business :: "nat \<Rightarrow> db \<Rightarrow> business list" where
  "select_business i s = filter (\<lambda>b. b_id b = i) (businesses s)"

text \<open>\<^verbatim>\<open>SELECT id FROM businesses WHERE id = :business_id\<close>, the id from the body.\<close>

definition select_business_id :: "json \<Rightarrow> db \<Rightarrow> nat list" where
  "select_business_id v s = map b_id (filter (\<lambda>b. sql_eq (int (b_id b)) v) (businesses s))"

text \<open>
  \<^verbatim>\<open>SELECT * FROM businesses ORDER BY id LIMIT :limit OFFSET :offset\<close>. The two
  counts are not negative in SQL: a negative parameter is a statement error.
\<close>

definition select_businesses_page :: "int \<Rightarrow> int \<Rightarrow> db \<Rightarrow> exn + business list" where
  "select_businesses_page limit offset s =
     (if limit < 0 \<or> offset < 0 then Inl DBAPIError
      else Inr (take (nat limit) (drop (nat offset) (sort_key b_id (businesses s)))))"

text \<open>\<^verbatim>\<open>SELECT * FROM businesses WHERE owner_id=:owner_id\<close>.\<close>

definition select_businesses_of_owner :: "nat \<Rightarrow> db \<Rightarrow> business list" where
  "select_businesses_of_owner owner s =
     filter (\<lambda>b. b_owner_id b = int owner) (businesses s)"

text \<open>
  \<^verbatim>\<open>UPDATE businesses SET name = :name, ... WHERE id = :business_id\<close>: every row with the
  id takes the new values; values that do not fit abort the statement when a row is
  to take them.
\<close>

definition update_business :: "nat \<Rightarrow> dict \<Rightarrow> db \<Rightarrow> exn + db" where
  "update_business i ps s =
     (if select_business i s = [] then Inr s
      else case business_values i ps of
        None \<Rightarrow> Inl DBAPIError
      | Some row \<Rightarrow>
          Inr (s\<lparr>businesses := map (\<lambda>b. if b_id b = i then row else b) (businesses s)\<rparr>))"

text \<open>\<^verbatim>\<open>DELETE FROM businesses WHERE id=:business_id\<close>, with its \<^verbatim>\<open>rowcount\<close>.\<close>

definition delete_business_row :: "nat \<Rightarrow> db \<Rightarrow> nat \<times> db" where
  "delete_business_row i s =
     (length (select_business i s),
      s\<lparr>businesses := filter (\<lambda>b. b_id b \<noteq> i) (businesses s)\<rparr>)"

text \<open>\<^verbatim>\<open>DELETE FROM reviews WHERE business_id=:business_id\<close>, with its \<^verbatim>\<open>rowcount\<close>.\<close>

definition delete_reviews_of_business :: "nat \<Rightarrow> db \<Rightarrow> nat \<times> db" where
  "delete_reviews_of_business i s =
     (length (filter (\<lambda>r. r_business_id r = int i) (reviews s)),
      s\<lparr>reviews := filter (\<lambda>r. r_business_id r \<noteq> int i) (reviews s)\<rparr>)"

text \<open>
  \<^verbatim>\<open>SELECT business_id, user_id FROM reviews WHERE business_id = :business_id AND
  user_id = :user_id\<close>.
\<close>

definition select_review_pair :: "json \<Rightarrow> json \<Rightarrow> db \<Rightarrow> (int \<times> int) list" where
  "select_review_pair bv uv s =
     map (\<lambda>r. (r_business_id r, r_user_id r))
       (filter (\<lambda>r. sql_eq (r_business_id r) bv \<and> sql_eq (r_user_id r) uv) (reviews s))"

definition review_values :: "nat \<Rightarrow> dict \<Rightarrow> review option" where
  "review_values i ps =
     Option.bind (int_column (get ps ''user_id'')) (\<lambda>user.
     Option.bind (int_column (get ps ''business_id'')) (\<lambda>business.
     Option.bind (stars_column (get ps ''stars'')) (\<lambda>stars.
     Option.bind (nullable_varchar_column 1000 (get ps ''review_text'')) (\<lambda>text.
       Some \<lparr>r_id = i, r_user_id = user, r_business_id = business, r_stars = stars,
             r_review_text = text\<rparr>))))"

text \<open>\<^verbatim>\<open>INSERT INTO reviews(user_id, business_id, stars, review_text)\<close>.\<close>

definition insert_review :: "dict \<Rightarrow> db \<Rightarrow> exn + db" where
  "insert_review ps s =
     (case review_values (next_review_id s) ps of
        None \<Rightarrow> Inl DBAPIError
      | Some row \<Rightarrow>
          Inr (s\<lparr>reviews := reviews s @ [row],
                 next_review_id := Suc (next_review_id s),
                 last_insert_id := next_review_id s\<rparr>))"

text \<open>\<^verbatim>\<open>SELECT * FROM reviews WHERE id=:review_id\<close>.\<close>

definition select_review :: "nat \<Rightarrow> db \<Rightarrow> review list" where
  "select_review i s = filter (\<lambda>r. r_id r = i) (reviews s)"

text \<open>\<^verbatim>\<open>SELECT * FROM reviews WHERE user_id = :user_id\<close>.\<close>

definition select_reviews_of_user :: "nat \<Rightarrow> db \<Rightarrow> review list" where
  "select_reviews_of_user user s = filter (\<lambda>r. r_user_id r = int user) (reviews s)"

text \<open>
  \<^verbatim>\<open>UPDATE reviews SET stars = :stars, review_text = :review_text WHERE id = :review_id\<close>.
\<close>

definition update_review :: "nat \<Rightarrow> dict \<Rightarrow> db \<Rightarrow> exn + db" where
  "update_review i ps s =
     (if select_review i s = [] then Inr s
      else case (stars_column (get ps ''stars''),
                 nullable_varchar_column 1000 (get ps ''review_text'')) of
        (Some stars, Some text) \<Rightarrow>
          Inr (s\<lparr>reviews :=
                   map (\<lambda>r. if r_id r = i then r\<lparr>r_stars := stars, r_review_text := text\<rparr> else r)
                     (reviews s)\<rparr>)
      | _ \<Rightarrow> Inl DBAPIError)"

text \<open>\<^verbatim>\<open>DELETE FROM reviews WHERE id=:review_id\<close>, with its \<^verbatim>\<open>rowcount\<close>.\<close>

definition delete_review_row :: "nat \<Rightarrow> db \<Rightarrow> nat \<times> db" where
  "delete_review_row i s =
     (length (select_review i s), s\<lparr>reviews := filter (\<lambda>r. r_id r \<noteq> i) (reviews s)\<rparr>)"

text \<open>\<^verbatim>\<open>Result.one_or_none()\<close>: at most one row, and an exception on more.\<close>

fun one_or_none :: "'a list \<Rightarrow> exn + 'a option" where
  "one_or_none [] = Inr None"
| "one_or_none [x] = Inr (Some x)"
| "one_or_none (x # y # ys) = Inl MultipleResultsFound"

text \<open>\<^verbatim>\<open>row._asdict()\<close> and \<^verbatim>\<open>dict(row)\<close>: the columns of a row by name.\<close>

definition business_asdict :: "business \<Rightarrow> dict" where
  "business_asdict b =
     [(''id'', JInt (int (b_id b))), (''owner_id'', JInt (b_owner_id b)),
      (''name'', JStr (b_name b)), (''street_address'', JStr (b_street_address b)),
      (''city'', JStr (b_city b)), (''state'', JStr (b_state b)),
      (''zip_code'', JStr (b_zip_code b))]"

definition review_asdict :: "review \<Rightarrow> dict" where
  "review_asdict r =
     [(''id'', JInt (int (r_id r))), (''user_id'', JInt (r_user_id r)),
      (''business_id'', JInt (r_business_id r)), (''stars'', JInt (r_stars r)),
      (''review_text'', (case r_review_text r of None \<Rightarrow> JNull | Some t \<Rightarrow> JStr t))]"

section \<open>Requests and responses\<close>

text \<open>
  What a handler reads of the Flask request: \<^verbatim>\<open>request.url_root\<close> (it ends with a
  slash), the path below it, the raw query string, and the query parameters that
  \<^verbatim>\<open>request.args.get(k, type=int)\<close> converts to an integer (a parameter that is absent
  or is not an integer is not in the list, and the default is taken).
\<close>

record request =
  url_root :: string
  path :: string
  query_string :: string
  int_args :: "(string \<times> int) list"

text \<open>\<^verbatim>\<open>request.base_url\<close>: the URL without the query string.\<close>

definition base_url :: "request \<Rightarrow> string" where
  "base_url rq = url_root rq @ path rq"

text \<open>\<^verbatim>\<open>request.url\<close>: the full URL, the query string included when there is one.\<close>

definition url :: "request \<Rightarrow> string" where
  "url rq = base_url rq @ (if query_string rq = [] then [] else ''?'' @ query_string rq)"

definition args_get :: "request \<Rightarrow> string \<Rightarrow> int \<Rightarrow> int" where
  "args_get rq k dflt = (case map_of (int_args rq) k of None \<Rightarrow> dflt | Some i \<Rightarrow> i)"

text \<open>
  A response body: the empty string, a JSON object, a JSON array of objects, or the
  object \<^verbatim>\<open>{'entries': [...], 'next': url}\<close> of the paginated list. A handler returns
  the body and the status, or raises (the exception leaves the connection's
  transaction uncommitted, so the tables are as before).
\<close>

datatype body = Empty | Obj dict | Arr "dict list" | Entries_Next "dict list" string

type_synonym response = "body \<times> nat"

type_synonym outcome = "(exn + response) \<times> db"

definition BUSINESSES :: string where
  "BUSINESSES = ''businesses''"

definition REVIEWS :: string where
  "REVIEWS = ''reviews''"

definition ERROR_MISSING_ATTRIBUTES :: dict where
  "ERROR_MISSING_ATTRIBUTES =
     [(''Error'', JStr ''The request body is missing at least one of the required attributes'')]"

definition ERROR_BUSINESS_NOT_FOUND :: dict where
  "ERROR_BUSINESS_NOT_FOUND = [(''Error'', JStr ''No business with this business_id exists'')]"

definition ERROR_REVIEW_CONFLICT :: dict where
  "ERROR_REVIEW_CONFLICT =
     [(''Error'', JStr ''You have already submitted a review for this business. You can update your previous review, or delete it and submit a new review'')]"

definition ERROR_REVIEW_NOT_FOUND :: dict where
  "ERROR_REVIEW_NOT_FOUND = [(''Error'', JStr ''No review with this review_id exists'')]"

section \<open>The business handlers\<close>

definition post_business :: "request \<Rightarrow> dict \<Rightarrow> db \<Rightarrow> outcome" where
  "post_business rq content s =
     (if len content \<noteq> 6 then (Inr (Obj ERROR_MISSING_ATTRIBUTES, 400), s)
      else case items_of content
                  [''owner_id'', ''name'', ''street_address'', ''city'', ''state'', ''zip_code''] of
        Inl e \<Rightarrow> (Inl e, s)
      | Inr ps \<Rightarrow>
          (case insert_business ps s of
             Inl e \<Rightarrow> (Inl e, s)
           | Inr s' \<Rightarrow>
               (let new_id = last_insert_id s';
                    b_url = url rq @ str_nat new_id
                in (Inr (Obj ((''id'', JInt (int new_id)) # ps @ [(''self'', JStr b_url)]), 201),
                    s'))))"

definition get_business :: "request \<Rightarrow> nat \<Rightarrow> db \<Rightarrow> outcome" where
  "get_business rq business_id s =
     (case one_or_none (select_business business_id s) of
        Inl e \<Rightarrow> (Inl e, s)
      | Inr None \<Rightarrow> (Inr (Obj ERROR_BUSINESS_NOT_FOUND, 404), s)
      | Inr (Some row) \<Rightarrow>
          (Inr (Obj (AList.update ''self'' (JStr (base_url rq)) (business_asdict row)), 200), s))"

definition get_businesses :: "request \<Rightarrow> db \<Rightarrow> outcome" where
  "get_businesses rq s =
     (let offset = args_get rq ''offset'' 0;
          limit = args_get rq ''limit'' 3
      in case select_businesses_page limit offset s of
        Inl e \<Rightarrow> (Inl e, s)
      | Inr rows \<Rightarrow>
          (let entries =
                 map (\<lambda>row. let row_dict = business_asdict row
                            in AList.update ''self''
                                 (JStr (url_root rq @ BUSINESSES @ ''/'' @ str (get row_dict ''id'')))
                                 row_dict) rows;
               next_offset = offset + limit;
               next_url = url_root rq @ BUSINESSES @ ''?offset='' @ str_int next_offset
                            @ ''&limit='' @ str_int limit
           in (Inr (Entries_Next entries next_url, 200), s)))"

definition get_businesses_of_owner :: "request \<Rightarrow> nat \<Rightarrow> db \<Rightarrow> outcome" where
  "get_businesses_of_owner rq owner_id s =
     (Inr (Arr (map (\<lambda>row. let row_dict = business_asdict row;
                               b_url = url_root rq @ BUSINESSES @ ''/'' @ str (get row_dict ''id'')
                           in AList.update ''self'' (JStr b_url) row_dict)
                  (select_businesses_of_owner owner_id s)), 200), s)"

definition put_business :: "request \<Rightarrow> nat \<Rightarrow> dict \<Rightarrow> db \<Rightarrow> outcome" where
  "put_business rq business_id content s =
     (if len content \<noteq> 6 then (Inr (Obj ERROR_MISSING_ATTRIBUTES, 400), s)
      else case one_or_none (select_business business_id s) of
        Inl e \<Rightarrow> (Inl e, s)
      | Inr None \<Rightarrow> (Inr (Obj ERROR_BUSINESS_NOT_FOUND, 404), s)
      | Inr (Some row) \<Rightarrow>
          (case items_of content
                  [''name'', ''owner_id'', ''street_address'', ''city'', ''state'', ''zip_code''] of
             Inl e \<Rightarrow> (Inl e, s)
           | Inr ps \<Rightarrow>
               (case update_business business_id ps s of
                  Inl e \<Rightarrow> (Inl e, s)
                | Inr s' \<Rightarrow>
                    (Inr (Obj ((''id'', JInt (int business_id)) # ps @ [(''self'', JStr (url rq))]),
                          200), s'))))"

definition delete_business :: "nat \<Rightarrow> db \<Rightarrow> outcome" where
  "delete_business business_id s =
     (let (row1, s1) = delete_reviews_of_business business_id s;
          (rowcount, s2) = delete_business_row business_id s1
      in if rowcount = 1 then (Inr (Empty, 204), s2)
         else (Inr (Obj ERROR_BUSINESS_NOT_FOUND, 404), s2))"

section \<open>The review handlers\<close>

definition post_review :: "request \<Rightarrow> dict \<Rightarrow> db \<Rightarrow> outcome" where
  "post_review rq content s =
     (if get content ''user_id'' = JNull \<or> get content ''business_id'' = JNull
         \<or> get content ''stars'' = JNull
      then (Inr (Obj ERROR_MISSING_ATTRIBUTES, 400), s)
      else case one_or_none (select_business_id (get content ''business_id'') s) of
        Inl e \<Rightarrow> (Inl e, s)
      | Inr None \<Rightarrow> (Inr (Obj ERROR_BUSINESS_NOT_FOUND, 404), s)
      | Inr (Some row) \<Rightarrow>
          (case one_or_none
                  (select_review_pair (get content ''business_id'') (get content ''user_id'') s) of
             Inl e \<Rightarrow> (Inl e, s)
           | Inr (Some row) \<Rightarrow> (Inr (Obj ERROR_REVIEW_CONFLICT, 409), s)
           | Inr None \<Rightarrow>
               (case insert_review
                       [(''user_id'', get content ''user_id''),
                        (''business_id'', get content ''business_id''),
                        (''stars'', get content ''stars''),
                        (''review_text'', get_default content ''review_text'' (JStr []))] s of
                  Inl e \<Rightarrow> (Inl e, s)
                | Inr s' \<Rightarrow>
                    (let new_id = last_insert_id s';
                         r_url = url rq @ ''/'' @ str_nat new_id;
                         b_url = url_root rq @ BUSINESSES @ ''/'' @ str (get content ''business_id'')
                     in (Inr (Obj [(''id'', JInt (int new_id)),
                                   (''user_id'', get content ''user_id''),
                                   (''business'', JStr b_url),
                                   (''stars'', get content ''stars''),
                                   (''review_text'', get_default content ''review_text'' (JStr [])),
                                   (''self'', JStr r_url)], 201), s')))))"

definition get_review :: "request \<Rightarrow> nat \<Rightarrow> db \<Rightarrow> outcome" where
  "get_review rq review_id s =
     (case one_or_none (select_review review_id s) of
        Inl e \<Rightarrow> (Inl e, s)
      | Inr None \<Rightarrow> (Inr (Obj ERROR_REVIEW_NOT_FOUND, 404), s)
      | Inr (Some row) \<Rightarrow>
          (let review = review_asdict row;
               b_url = url_root rq @ ''businesses/'' @ str (get review ''business_id'');
               r_url = url rq
           in (Inr (Obj [(''id'', get review ''id''),
                         (''user_id'', get review ''user_id''),
                         (''business'', JStr b_url),
                         (''stars'', get review ''stars''),
                         (''review_text'', get_default review ''review_text'' (JStr [])),
                         (''self'', JStr r_url)], 200), s)))"

definition put_review :: "request \<Rightarrow> nat \<Rightarrow> dict \<Rightarrow> db \<Rightarrow> outcome" where
  "put_review rq review_id content s =
     (if get content ''stars'' = JNull then (Inr (Obj ERROR_MISSING_ATTRIBUTES, 400), s)
      else case one_or_none (select_review review_id s) of
        Inl e \<Rightarrow> (Inl e, s)
      | Inr None \<Rightarrow> (Inr (Obj ERROR_REVIEW_NOT_FOUND, 404), s)
      | Inr (Some row) \<Rightarrow>
          (let row_dict = review_asdict row;
               b_url = url_root rq @ BUSINESSES @ ''/'' @ str (get row_dict ''business_id'');
               r_url = url rq;
               review_text = get_default content ''review_text'' (get row_dict ''review_text'')
           in case update_review review_id
                     [(''stars'', get content ''stars''), (''review_text'', review_text),
                      (''review_id'', JInt (int review_id))] s of
                Inl e \<Rightarrow> (Inl e, s)
              | Inr s' \<Rightarrow>
                  (Inr (Obj [(''id'', get row_dict ''id''),
                             (''user_id'', get row_dict ''user_id''),
                             (''business'', JStr b_url),
                             (''stars'', get content ''stars''),
                             (''review_text'', review_text),
                             (''self'', JStr r_url)], 200), s')))"

definition get_reviews :: "request \<Rightarrow> nat \<Rightarrow> db \<Rightarrow> outcome" where
  "get_reviews rq user_id s =
     (Inr (Arr (map (\<lambda>row. let row_dict = review_asdict row;
                               b_url = url_root rq @ BUSINESSES @ ''/''
                                         @ str (get row_dict ''business_id'');
                               r_url = url_root rq @ REVIEWS @ ''/'' @ str (get row_dict ''id'')
                           in AList.update ''self'' (JStr r_url)
                                (AList.update ''business'' (JStr b_url)
                                   (AList.delete ''business_id'' row_dict)))
                  (select_reviews_of_user user_id s)), 200), s)"

definition delete_review :: "nat \<Rightarrow> db \<Rightarrow> outcome" where
  "delete_review review_id s =
     (let (rowcount, s') = delete_review_row review_id s
      in if rowcount = 1 then (Inr (Empty, 204), s')
         else (Inr (Obj ERROR_REVIEW_NOT_FOUND, 404), s'))"

section \<open>Sequences of requests\<close>

text \<open>
  The eleven routes of the application. The integer of a route
  \<^verbatim>\<open><int:business_id>\<close> is a natural number (the converter matches digits only).
\<close>

datatype call =
    Post_business request dict
  | Get_business request nat
  | Get_businesses request
  | Get_businesses_of_owner request nat
  | Put_business request nat dict
  | Delete_business nat
  | Post_review request dict
  | Get_review request nat
  | Put_review request nat dict
  | Get_reviews request nat
  | Delete_review nat

fun handle :: "call \<Rightarrow> db \<Rightarrow> outcome" where
  "handle (Post_business rq content) s = post_business rq content s"
| "handle (Get_business rq i) s = get_business rq i s"
| "handle (Get_businesses rq) s = get_businesses rq s"
| "handle (Get_businesses_of_owner rq i) s = get_businesses_of_owner rq i s"
| "handle (Put_business rq i content) s = put_business rq i content s"
| "handle (Delete_business i) s = delete_business i s"
| "handle (Post_review rq content) s = post_review rq content s"
| "handle (Get_review rq i) s = get_review rq i s"
| "handle (Put_review rq i content) s = put_review rq i content s"
| "handle (Get_reviews rq i) s = get_reviews rq i s"
| "handle (Delete_review i) s = delete_review i s"

text \<open>The tables after a sequence of requests, handled one after the other.\<close>

fun run :: "call list \<Rightarrow> db \<Rightarrow> db" where
  "run [] s = s"
| "run (c # cs) s = run cs (snd (handle c s))"

text \<open>The states the application reaches from the empty tables.\<close>

inductive reachable :: "db \<Rightarrow> bool" where
  start: "reachable create_table"
| request: "reachable s \<Longrightarrow> reachable (snd (handle c s))"

section \<open>Invariants of the tables\<close>

text \<open>
  \<^verbatim>\<open>PRIMARY KEY (id)\<close> with a counter that only grows: no two rows of a table have the
  same id, and every id in use is below the next one the store gives.
\<close>

definition keys_ok :: "db \<Rightarrow> bool" where
  "keys_ok s =
     (distinct (map b_id (businesses s)) \<and> (\<forall>b \<in> set (businesses s). b_id b < next_business_id s)
      \<and> distinct (map r_id (reviews s)) \<and> (\<forall>r \<in> set (reviews s). r_id r < next_review_id s))"


text \<open>Every review refers to a stored business.\<close>

definition references_ok :: "db \<Rightarrow> bool" where
  "references_ok s =
     (\<forall>r \<in> set (reviews s). \<exists>b \<in> set (businesses s). int (b_id b) = r_business_id r)"

text \<open>
  A review row satisfies the \<^verbatim>\<open>CHECK\<close> constraint of \<^verbatim>\<open>stars\<close> and the length of
  \<^verbatim>\<open>review_text\<close>.
\<close>

definition review_row_ok :: "review \<Rightarrow> bool" where
  "review_row_ok r =
     (0 \<le> r_stars r \<and> r_stars r \<le> 5
      \<and> (case r_review_text r of None \<Rightarrow> True | Some t \<Rightarrow> length t \<le> 1000))"

section \<open>A small run of the application\<close>

text \<open>
  One business is created and reviewed once, on a server at
  \<^verbatim>\<open>http://localhost:8080/\<close>; the request is given by its path.
\<close>

definition example_request :: "string \<Rightarrow> request" where
  "example_request p =
     \<lparr>url_root = ''http://localhost:8080/'', path = p, query_string = [], int_args = []\<rparr>"

definition example_business :: dict where
  "example_business =
     [(''owner_id'', JInt 7), (''name'', JStr ''Cafe''), (''street_address'', JStr ''1 Main St''),
      (''city'', JStr ''Corvallis''), (''state'', JStr ''OR''), (''zip_code'', JStr ''97330'')]"

definition example_review :: dict where
  "example_review =
     [(''user_id'', JInt 3), (''business_id'', JInt 1), (''stars'', JInt 4),
      (''review_text'', JStr ''Good'')]"

definition example_calls :: "call list" where
  "example_calls =
     [Post_business (example_request ''businesses'') example_business,
      Post_review (example_request ''reviews'') example_review]"

definition example_db :: db where
  "example_db = run example_calls create_table"

text \<open>The same business created five times: the ids are 1 to 5.\<close>

definition example_five :: db where
  "example_five =
     run (replicate 5 (Post_business (example_request ''businesses'') example_business))
       create_table"

section \<open>What the statements and the handlers do to the tables\<close>

lemma one_or_none_Some: "one_or_none xs = Inr (Some x) \<longleftrightarrow> xs = [x]"
  by (cases xs rule: one_or_none.cases) auto

lemma one_or_none_None: "one_or_none xs = Inr None \<longleftrightarrow> xs = []"
  by (cases xs rule: one_or_none.cases) auto

lemma business_values_id: "business_values i ps = Some row \<Longrightarrow> b_id row = i"
  by (auto simp: business_values_def split: Option.bind_splits)

lemma insert_business_Inr:
  "insert_business ps s = Inr s' \<Longrightarrow>
     \<exists>row. b_id row = next_business_id s \<and>
       s' = s\<lparr>businesses := businesses s @ [row], next_business_id := Suc (next_business_id s),
              last_insert_id := next_business_id s\<rparr>"
  by (auto simp: insert_business_def dest: business_values_id split: option.splits)

lemma update_business_Inr:
  "update_business i ps s = Inr s' \<Longrightarrow>
     s' = s \<or> (\<exists>row. b_id row = i \<and>
       s' = s\<lparr>businesses := map (\<lambda>b. if b_id b = i then row else b) (businesses s)\<rparr>)"
  by (auto simp: update_business_def dest: business_values_id split: option.splits if_splits)

lemma post_business_cases:
  "(\<exists>row. b_id row = next_business_id s \<and>
      snd (post_business rq content s) =
        s\<lparr>businesses := businesses s @ [row], next_business_id := Suc (next_business_id s),
          last_insert_id := next_business_id s\<rparr>) \<or>
   snd (post_business rq content s) = s"
  unfolding post_business_def Let_def
  by (auto simp del: items_of.simps dest: insert_business_Inr split: sum.splits)

lemma put_business_cases:
  "(\<exists>row. b_id row = i \<and>
      snd (put_business rq i content s) =
        s\<lparr>businesses := map (\<lambda>b. if b_id b = i then row else b) (businesses s)\<rparr>) \<or>
   snd (put_business rq i content s) = s"
  unfolding put_business_def Let_def
  by (auto simp del: items_of.simps dest: update_business_Inr split: sum.splits option.splits)

lemma stars_column_Some: "stars_column v = Some i \<Longrightarrow> 0 \<le> i \<and> i \<le> 5 \<and> v = JInt i"
  by (auto simp: stars_column_def int_column_def split: option.splits if_splits json.splits)

lemma nullable_varchar_column_Some:
  "nullable_varchar_column n v = Some t \<Longrightarrow>
     (case t of None \<Rightarrow> v = JNull | Some x \<Rightarrow> v = JStr x \<and> length x \<le> n)"
  by (auto simp: nullable_varchar_column_def varchar_column_def
      split: option.splits if_splits json.splits)

lemma review_values_fields:
  "review_values i ps = Some row \<Longrightarrow>
     r_id row = i \<and> get ps ''user_id'' = JInt (r_user_id row)
     \<and> get ps ''business_id'' = JInt (r_business_id row) \<and> review_row_ok row"
  by (auto simp: review_values_def int_column_def review_row_ok_def
      dest!: stars_column_Some nullable_varchar_column_Some
      split: Option.bind_splits json.splits if_splits option.splits)

lemma insert_review_Inr:
  "insert_review ps s = Inr s' \<Longrightarrow>
     \<exists>row. r_id row = next_review_id s \<and> get ps ''user_id'' = JInt (r_user_id row)
       \<and> get ps ''business_id'' = JInt (r_business_id row) \<and> review_row_ok row
       \<and> s' = s\<lparr>reviews := reviews s @ [row], next_review_id := Suc (next_review_id s),
              last_insert_id := next_review_id s\<rparr>"
  by (auto simp: insert_review_def dest: review_values_fields split: option.splits)

lemma update_review_Inr:
  assumes upd: "update_review i ps s = Inr s'"
  shows "s' = s \<or> (\<exists>stars text.
       0 \<le> stars \<and> stars \<le> 5 \<and> (case text of None \<Rightarrow> True | Some t \<Rightarrow> length t \<le> 1000) \<and>
       s' = s\<lparr>reviews :=
               map (\<lambda>r. if r_id r = i then r\<lparr>r_stars := stars, r_review_text := text\<rparr> else r)
                 (reviews s)\<rparr>)"
proof (cases "select_review i s = []")
  case True
  with upd show ?thesis by (simp add: update_review_def)
next
  case False
  with upd obtain stars rtext where st: "stars_column (get ps ''stars'') = Some stars"
    and tx: "nullable_varchar_column 1000 (get ps ''review_text'') = Some rtext"
    and s': "s' = s\<lparr>reviews :=
               map (\<lambda>r. if r_id r = i then r\<lparr>r_stars := stars, r_review_text := rtext\<rparr> else r)
                 (reviews s)\<rparr>"
    by (auto simp: update_review_def split: option.splits)
  from stars_column_Some[OF st] nullable_varchar_column_Some[OF tx]
  have "0 \<le> stars \<and> stars \<le> 5 \<and> (case rtext of None \<Rightarrow> True | Some t \<Rightarrow> length t \<le> 1000)"
    by (auto split: option.splits)
  with s' show ?thesis by blast
qed

lemma post_review_cases:
  "(\<exists>row. r_id row = next_review_id s
      \<and> get content ''user_id'' = JInt (r_user_id row)
      \<and> get content ''business_id'' = JInt (r_business_id row)
      \<and> review_row_ok row
      \<and> select_business_id (get content ''business_id'') s \<noteq> []
      \<and> select_review_pair (get content ''business_id'') (get content ''user_id'') s = []
      \<and> snd (post_review rq content s) =
        s\<lparr>reviews := reviews s @ [row], next_review_id := Suc (next_review_id s),
          last_insert_id := next_review_id s\<rparr>) \<or>
   snd (post_review rq content s) = s"
proof (cases "snd (post_review rq content s) = s")
  case False
  then obtain s' where ins: "insert_review
        [(''user_id'', get content ''user_id''), (''business_id'', get content ''business_id''),
         (''stars'', get content ''stars''),
         (''review_text'', get_default content ''review_text'' (JStr []))] s = Inr s'"
    and s': "snd (post_review rq content s) = s'"
    and b: "select_business_id (get content ''business_id'') s \<noteq> []"
    and p: "select_review_pair (get content ''business_id'') (get content ''user_id'') s = []"
    unfolding post_review_def Let_def
    by (auto simp: one_or_none_None one_or_none_Some split: sum.splits option.splits if_splits)
  from insert_review_Inr[OF ins] b p s' show ?thesis
    by (auto simp: get_def)
qed simp

lemma put_review_cases:
  "(\<exists>stars text.
      0 \<le> stars \<and> stars \<le> 5 \<and> (case text of None \<Rightarrow> True | Some t \<Rightarrow> length t \<le> 1000) \<and>
      snd (put_review rq i content s) =
        s\<lparr>reviews := map (\<lambda>r. if r_id r = i then r\<lparr>r_stars := stars, r_review_text := text\<rparr> else r)
                       (reviews s)\<rparr>) \<or>
   snd (put_review rq i content s) = s"
proof (cases "snd (put_review rq i content s) = s")
  case False
  then obtain ps s' where "update_review i ps s = Inr s'" "snd (put_review rq i content s) = s'"
    unfolding put_review_def Let_def
    by (auto split: sum.splits option.splits if_splits)
  with False update_review_Inr[of i ps s s'] show ?thesis
    by auto
qed simp

lemma delete_business_state:
  "snd (delete_business i s) =
     s\<lparr>reviews := filter (\<lambda>r. r_business_id r \<noteq> int i) (reviews s),
       businesses := filter (\<lambda>b. b_id b \<noteq> i) (businesses s)\<rparr>"
  by (simp add: delete_business_def delete_reviews_of_business_def delete_business_row_def
      Let_def split: prod.splits)

lemma delete_review_state:
  "snd (delete_review i s) = s\<lparr>reviews := filter (\<lambda>r. r_id r \<noteq> i) (reviews s)\<rparr>"
  by (simp add: delete_review_def delete_review_row_def Let_def split: prod.splits)

lemma get_state:
  "snd (get_business rq i s) = s" "snd (get_businesses rq s) = s"
  "snd (get_businesses_of_owner rq i s) = s" "snd (get_review rq i s) = s"
  "snd (get_reviews rq i s) = s"
  by (auto simp: get_business_def get_businesses_def get_businesses_of_owner_def get_review_def
      get_reviews_def Let_def split: sum.splits option.splits)

lemma replace_id [simp]:
  "b_id row = i \<Longrightarrow> b_id \<circ> (\<lambda>b. if b_id b = i then row else b) = b_id"
  by (auto simp: fun_eq_iff)

lemma update_review_id [simp]:
  "r_id \<circ> (\<lambda>r. if r_id r = i then r\<lparr>r_stars := st, r_review_text := t\<rparr> else r) = r_id"
  by (auto simp: fun_eq_iff)

lemma update_review_pair [simp]:
  "(\<lambda>r. (r_user_id r, r_business_id r))
     \<circ> (\<lambda>r. if r_id r = i then r\<lparr>r_stars := st, r_review_text := t\<rparr> else r)
   = (\<lambda>r. (r_user_id r, r_business_id r))"
  by (auto simp: fun_eq_iff)


lemma select_business_id_nonempty:
  "select_business_id (JInt b) s \<noteq> [] \<longleftrightarrow> (\<exists>x \<in> set (businesses s). int (b_id x) = b)"
  by (auto simp: select_business_id_def sql_eq_def filter_empty_conv)

section \<open>The handlers keep the invariants\<close>

lemma handle_keys_ok: "keys_ok s \<Longrightarrow> keys_ok (snd (handle c s))"
proof (cases c)
  case (Post_business rq content)
  assume "keys_ok s"
  with post_business_cases[of s rq content] Post_business show ?thesis
    by (fastforce simp: keys_ok_def less_Suc_eq)
next
  case (Put_business rq i content)
  assume k: "keys_ok s"
  from put_business_cases[of i rq content s] show ?thesis
  proof
    assume "\<exists>row. b_id row = i \<and> snd (put_business rq i content s) =
        s\<lparr>businesses := map (\<lambda>b. if b_id b = i then row else b) (businesses s)\<rparr>"
    then obtain row where r: "b_id row = i" and e: "snd (put_business rq i content s) =
        s\<lparr>businesses := map (\<lambda>b. if b_id b = i then row else b) (businesses s)\<rparr>" by blast
    from k r show ?thesis
      by (auto simp: Put_business e keys_ok_def)
  next
    assume "snd (put_business rq i content s) = s"
    with k Put_business show ?thesis by simp
  qed
next
  case (Delete_business i)
  assume "keys_ok s"
  then show ?thesis
    by (auto simp: Delete_business delete_business_state keys_ok_def distinct_map_filter)
next
  case (Post_review rq content)
  assume "keys_ok s"
  with post_review_cases[of s content rq] Post_review show ?thesis
    by (fastforce simp: keys_ok_def less_Suc_eq)
next
  case (Put_review rq i content)
  assume k: "keys_ok s"
  from put_review_cases[of rq i content s] show ?thesis
  proof
    assume "\<exists>stars text. 0 \<le> stars \<and> stars \<le> 5
        \<and> (case text of None \<Rightarrow> True | Some t \<Rightarrow> length t \<le> 1000) \<and> snd (put_review rq i content s) =
        s\<lparr>reviews := map (\<lambda>r. if r_id r = i then r\<lparr>r_stars := stars, r_review_text := text\<rparr> else r)
                       (reviews s)\<rparr>"
    then obtain st t where e: "snd (put_review rq i content s) =
        s\<lparr>reviews := map (\<lambda>r. if r_id r = i then r\<lparr>r_stars := st, r_review_text := t\<rparr> else r)
                       (reviews s)\<rparr>" by blast
    from k show ?thesis
      by (auto simp: Put_review e keys_ok_def)
  next
    assume "snd (put_review rq i content s) = s"
    with k Put_review show ?thesis by simp
  qed
next
  case (Delete_review i)
  assume "keys_ok s"
  then show ?thesis
    by (auto simp: Delete_review delete_review_state keys_ok_def distinct_map_filter)
qed (simp_all add: get_state)



lemma handle_references_ok: "references_ok s \<Longrightarrow> references_ok (snd (handle c s))"
proof (cases c)
  case (Post_business rq content)
  assume "references_ok s"
  with post_business_cases[of s rq content] Post_business show ?thesis
    by (auto simp: references_ok_def)
next
  case (Put_business rq i content)
  assume r: "references_ok s"
  from put_business_cases[of i rq content s] show ?thesis
  proof
    assume "snd (put_business rq i content s) = s"
    with r Put_business show ?thesis by simp
  next
    assume "\<exists>row. b_id row = i \<and> snd (put_business rq i content s) =
        s\<lparr>businesses := map (\<lambda>b. if b_id b = i then row else b) (businesses s)\<rparr>"
    then obtain row where i: "b_id row = i" and e: "snd (put_business rq i content s) =
        s\<lparr>businesses := map (\<lambda>b. if b_id b = i then row else b) (businesses s)\<rparr>" by blast
    have "b_id ` set (map (\<lambda>b. if b_id b = i then row else b) (businesses s))
            = b_id ` set (businesses s)"
      using i by (simp add: image_comp del: set_map flip: set_map)
    show ?thesis
      unfolding references_ok_def Put_business handle.simps e
    proof (simp del: set_map, intro ballI)
      fix rv assume "rv \<in> set (reviews s)"
      with r obtain b where "b \<in> set (businesses s)" "int (b_id b) = r_business_id rv"
        by (auto simp: references_ok_def)
      then show "\<exists>b\<in>set (map (\<lambda>b. if b_id b = i then row else b) (businesses s)).
                   int (b_id b) = r_business_id rv"
        using i by (cases "b_id b = i") (auto intro: bexI[of _ "if b_id b = i then row else b"])
    qed
  qed
next
  case (Delete_business i)
  assume "references_ok s"
  then show ?thesis
    by (fastforce simp: Delete_business delete_business_state references_ok_def)
next
  case (Post_review rq content)
  assume r: "references_ok s"
  from post_review_cases[of s content rq] show ?thesis
  proof
    assume "snd (post_review rq content s) = s"
    with r Post_review show ?thesis by simp
  next
    assume "\<exists>row. r_id row = next_review_id s
      \<and> get content ''user_id'' = JInt (r_user_id row)
      \<and> get content ''business_id'' = JInt (r_business_id row)
      \<and> review_row_ok row
      \<and> select_business_id (get content ''business_id'') s \<noteq> []
      \<and> select_review_pair (get content ''business_id'') (get content ''user_id'') s = []
      \<and> snd (post_review rq content s) =
        s\<lparr>reviews := reviews s @ [row], next_review_id := Suc (next_review_id s),
          last_insert_id := next_review_id s\<rparr>"
    then obtain row where
      "select_business_id (JInt (r_business_id row)) s \<noteq> []"
      and e: "snd (post_review rq content s) =
        s\<lparr>reviews := reviews s @ [row], next_review_id := Suc (next_review_id s),
          last_insert_id := next_review_id s\<rparr>"
      by auto
    then have "\<exists>x \<in> set (businesses s). int (b_id x) = r_business_id row"
      by (simp add: select_business_id_nonempty)
    with r show ?thesis
      by (auto simp: Post_review e references_ok_def)
  qed
next
  case (Put_review rq i content)
  assume "references_ok s"
  with put_review_cases[of rq i content s] Put_review show ?thesis
    by (auto simp: references_ok_def)
next
  case (Delete_review i)
  assume "references_ok s"
  then show ?thesis
    by (auto simp: Delete_review delete_review_state references_ok_def)
qed (simp_all add: get_state)

lemma handle_rows_ok:
  "\<forall>r \<in> set (reviews s). review_row_ok r \<Longrightarrow>
     \<forall>r \<in> set (reviews (snd (handle c s))). review_row_ok r"
proof (cases c)
  case (Post_business rq content)
  assume "\<forall>r \<in> set (reviews s). review_row_ok r"
  with post_business_cases[of s rq content] Post_business show ?thesis
    by auto
next
  case (Put_business rq i content)
  assume "\<forall>r \<in> set (reviews s). review_row_ok r"
  with put_business_cases[of i rq content s] Put_business show ?thesis
    by auto
next
  case (Delete_business i)
  assume "\<forall>r \<in> set (reviews s). review_row_ok r"
  then show ?thesis
    by (auto simp: Delete_business delete_business_state)
next
  case (Post_review rq content)
  assume "\<forall>r \<in> set (reviews s). review_row_ok r"
  with post_review_cases[of s content rq] Post_review show ?thesis
    by auto
next
  case (Put_review rq i content)
  assume "\<forall>r \<in> set (reviews s). review_row_ok r"
  with put_review_cases[of rq i content s] Put_review show ?thesis
    by (auto simp: review_row_ok_def)
next
  case (Delete_review i)
  assume "\<forall>r \<in> set (reviews s). review_row_ok r"
  then show ?thesis
    by (auto simp: Delete_review delete_review_state)
qed (simp_all add: get_state)

lemma reachable_keys_ok: "reachable s \<Longrightarrow> keys_ok s"
proof (induction rule: reachable.induct)
  case start
  show ?case by (simp add: create_table_def keys_ok_def)
next
  case (request s c)
  then show ?case by (simp add: handle_keys_ok)
qed

lemma reachable_references_ok: "reachable s \<Longrightarrow> references_ok s"
proof (induction rule: reachable.induct)
  case start
  show ?case by (simp add: create_table_def references_ok_def)
next
  case (request s c)
  then show ?case by (simp add: handle_references_ok)
qed


lemma reachable_rows_ok: "reachable s \<Longrightarrow> \<forall>r \<in> set (reviews s). review_row_ok r"
proof (induction rule: reachable.induct)
  case start
  show ?case by (simp add: create_table_def)
next
  case (request s c)
  from request.IH show ?case by (rule handle_rows_ok)
qed

section \<open>The small run, evaluated\<close>

lemma example_db_eq:
  "example_db =
     \<lparr>businesses = [\<lparr>b_id = 1, b_owner_id = 7, b_name = ''Cafe'',
                     b_street_address = ''1 Main St'', b_city = ''Corvallis'', b_state = ''OR'',
                     b_zip_code = ''97330''\<rparr>],
      reviews = [\<lparr>r_id = 1, r_user_id = 3, r_business_id = 1, r_stars = 4,
                  r_review_text = Some ''Good''\<rparr>],
      next_business_id = 2, next_review_id = 2, last_insert_id = 1\<rparr>"
  by code_simp

lemma reachable_run: "reachable s \<Longrightarrow> reachable (run cs s)"
  by (induction cs arbitrary: s) (auto intro: reachable.request)

lemma reachable_example_db: "reachable example_db"
  unfolding example_db_def by (rule reachable_run) (rule reachable.start)

section \<open>Lookups by key in a reachable state\<close>

lemma filter_key_single:
  "distinct (map f xs) \<Longrightarrow> x \<in> set xs \<Longrightarrow> filter (\<lambda>y. f y = f x) xs = [x]"
proof (induction xs)
  case Nil
  then show ?case by simp
next
  case (Cons a xs)
  show ?case
  proof (cases "a = x")
    case True
    with Cons.prems have "f x \<notin> f ` set xs" by simp
    then have "\<forall>y \<in> set xs. f y \<noteq> f x" by (metis image_eqI)
    then have "filter (\<lambda>y. f y = f x) xs = []" by (simp add: filter_empty_conv)
    with True show ?thesis by simp
  next
    case False
    with Cons.prems have "x \<in> set xs" "f a \<noteq> f x" by auto
    with Cons show ?thesis by simp
  qed
qed





lemma filter_key_length:
  assumes "distinct (map f xs)"
  shows "length (filter (\<lambda>y. f y = k) xs) = (if k \<in> f ` set xs then 1 else 0)"
proof (cases "k \<in> f ` set xs")
  case True
  then obtain x where "x \<in> set xs" "k = f x" by blast
  with filter_key_single[OF assms, of x] True show ?thesis by simp
next
  case False
  then have "filter (\<lambda>y. f y = k) xs = []" by (auto simp: filter_empty_conv)
  with False show ?thesis by simp
qed

lemma get_business_absent:
  "\<forall>b \<in> set (businesses s). b_id b \<noteq> i \<Longrightarrow>
     get_business rq i s = (Inr (Obj ERROR_BUSINESS_NOT_FOUND, 404), s)"
  by (simp add: get_business_def select_business_def filter_empty_conv[THEN iffD2])

lemma get_review_absent:
  "\<forall>r \<in> set (reviews s). r_id r \<noteq> i \<Longrightarrow>
     get_review rq i s = (Inr (Obj ERROR_REVIEW_NOT_FOUND, 404), s)"
  by (simp add: get_review_def select_review_def filter_empty_conv[THEN iffD2])

lemma delete_business_answer:
  assumes "keys_ok s"
  shows "fst (delete_business i s) =
           (if i \<in> b_id ` set (businesses s) then Inr (Empty, 204)
            else Inr (Obj ERROR_BUSINESS_NOT_FOUND, 404))"
proof -
  from assms have "distinct (map b_id (businesses s))" by (simp add: keys_ok_def)
  from filter_key_length[OF this, of i] show ?thesis
    by (simp add: delete_business_def delete_reviews_of_business_def delete_business_row_def
        select_business_def Let_def)
qed

section \<open>Requests that the handlers or the store refuse\<close>

lemma select_business_id_empty:
  "select_business_id v s = [] \<longleftrightarrow> (\<forall>b \<in> set (businesses s). v \<noteq> JInt (int (b_id b)))"
  by (auto simp: select_business_id_def sql_eq_def filter_empty_conv)

lemma post_review_no_business:
  assumes "\<forall>b \<in> set (businesses s). get content ''business_id'' \<noteq> JInt (int (b_id b))"
  shows "post_review rq content s =
           (if get content ''user_id'' = JNull \<or> get content ''business_id'' = JNull
               \<or> get content ''stars'' = JNull
            then (Inr (Obj ERROR_MISSING_ATTRIBUTES, 400), s)
            else (Inr (Obj ERROR_BUSINESS_NOT_FOUND, 404), s))"
proof -
  from assms have "select_business_id (get content ''business_id'') s = []"
    by (simp add: select_business_id_empty)
  then show ?thesis by (simp add: post_review_def)
qed

lemma insert_review_bad_stars:
  "stars_column (get ps ''stars'') = None \<Longrightarrow> insert_review ps s = Inl DBAPIError"
  by (auto simp: insert_review_def review_values_def split: option.splits Option.bind_splits)

lemma update_review_bad_stars:
  "stars_column (get ps ''stars'') = None \<Longrightarrow> select_review i s \<noteq> [] \<Longrightarrow>
     update_review i ps s = Inl DBAPIError"
  by (simp add: update_review_def)

lemma stars_column_out_of_range: "n < 0 \<or> 5 < n \<Longrightarrow> stars_column (JInt n) = None"
  by (auto simp: stars_column_def int_column_def)

lemma post_review_bad_stars:
  assumes "stars_column (get content ''stars'') = None"
  shows "snd (post_review rq content s) = s \<and> fst (post_review rq content s) \<noteq> Inr (body, 201)"
  using insert_review_bad_stars[of _ s] assms
  by (auto simp: post_review_def Let_def get_def ERROR_MISSING_ATTRIBUTES_def
      split: sum.splits option.splits)

lemma put_review_bad_stars:
  assumes "stars_column (get content ''stars'') = None"
  shows "snd (put_review rq i content s) = s \<and> fst (put_review rq i content s) \<noteq> Inr (body, 200)"
proof (cases "select_review i s = []")
  case True
  then show ?thesis by (simp add: put_review_def)
next
  case False
  from update_review_bad_stars[OF _ False, of _ ] assms
  have "update_review i
          [(''stars'', get content ''stars''), (''review_text'', t),
           (''review_id'', JInt (int i))] s = Inl DBAPIError" for t
    by (simp add: get_def)
  then show ?thesis
    by (auto simp: put_review_def Let_def split: sum.splits option.splits)
qed

section \<open>Bodies with the required fields\<close>

lemma len_card: "len d = card (fst ` set d)"
  by (simp add: len_def length_remdups_card_conv)

lemma items_of_present:
  "set ks \<subseteq> fst ` set d \<Longrightarrow> items_of d ks = Inr (map (\<lambda>k. (k, get d k)) ks)"
proof (induction ks)
  case Nil
  then show ?case by simp
next
  case (Cons k ks)
  then have "map_of d k \<noteq> None" by (simp add: map_of_eq_None_iff)
  with Cons show ?case by (auto simp: get_def)
qed

lemma int_column_Some: "int_column v = Some i \<Longrightarrow> v = JInt i"
  by (auto simp: int_column_def split: json.splits if_splits)

lemma varchar_column_Some: "varchar_column n v = Some t \<Longrightarrow> v = JStr t"
  by (auto simp: varchar_column_def split: json.splits if_splits)

lemma select_business_fresh:
  assumes "keys_ok s" "b_id row = next_business_id s"
  shows "select_business (next_business_id s)
           (s\<lparr>businesses := businesses s @ [row], next_business_id := n, last_insert_id := l\<rparr>)
         = [row]"
proof -
  from assms(1) have "\<forall>b \<in> set (businesses s). b_id b \<noteq> next_business_id s"
    by (auto simp: keys_ok_def)
  then have "filter (\<lambda>b. b_id b = next_business_id s) (businesses s) = []"
    by (simp add: filter_empty_conv)
  with assms(2) show ?thesis by (simp add: select_business_def)
qed

lemma post_business_400:
  "fst (post_business rq content s) = Inr (Obj ERROR_MISSING_ATTRIBUTES, 400) \<longleftrightarrow> len content \<noteq> 6"
  unfolding post_business_def Let_def
  by (simp del: items_of.simps split: sum.splits)

lemma put_business_400:
  "fst (put_business rq i content s) = Inr (Obj ERROR_MISSING_ATTRIBUTES, 400) \<longleftrightarrow> len content \<noteq> 6"
  unfolding put_business_def Let_def
  by (simp del: items_of.simps split: sum.splits option.splits)

lemma six_fields:
  "card {''owner_id'', ''name'', ''street_address'', ''city'', ''state'', ''zip_code''} = 6"
  by simp

lemma len_psubset:
  assumes "fst ` set content \<subset> {''owner_id'', ''name'', ''street_address'', ''city'', ''state'', ''zip_code''}"
  shows "len content < 6"
proof -
  have "card (fst ` set content)
          < card {''owner_id'', ''name'', ''street_address'', ''city'', ''state'', ''zip_code''}"
    by (rule psubset_card_mono[OF _ assms]) simp
  then show ?thesis by (simp add: len_card)
qed

lemma len_psupset:
  assumes "{''owner_id'', ''name'', ''street_address'', ''city'', ''state'', ''zip_code''} \<subset> fst ` set content"
  shows "6 < len content"
proof -
  have "card {''owner_id'', ''name'', ''street_address'', ''city'', ''state'', ''zip_code''}
          < card (fst ` set content)"
    by (rule psubset_card_mono[OF _ assms]) simp
  then show ?thesis by (simp add: len_card)
qed

section \<open>Pages of businesses\<close>

lemma str_int_nat [simp]: "str_int (int n) = str_nat n"
  by (simp add: str_int_def)






lemma reachable_example_five: "reachable example_five"
  unfolding example_five_def by (rule reachable_run) (rule reachable.start)







section \<open>Creating and updating a review\<close>





lemma post_review_unchanged_unless_201:
  "snd (post_review rq content s) \<noteq> s \<Longrightarrow> \<exists>body. fst (post_review rq content s) = Inr (body, 201)"
  unfolding post_review_def Let_def
  by (auto split: if_splits sum.splits option.splits)

lemma select_review_single:
  assumes "keys_ok s" "r \<in> set (reviews s)"
  shows "select_review (r_id r) s = [r]"
proof -
  from assms have "filter (\<lambda>y. r_id y = r_id r) (reviews s) = [r]"
    by (simp add: keys_ok_def filter_key_single)
  then show ?thesis by (simp add: select_review_def)
qed

lemma review_asdict_get:
  "get (review_asdict r) ''id'' = JInt (int (r_id r))"
  "get (review_asdict r) ''user_id'' = JInt (r_user_id r)"
  "get (review_asdict r) ''business_id'' = JInt (r_business_id r)"
  "get (review_asdict r) ''review_text'' = (case r_review_text r of None \<Rightarrow> JNull | Some t \<Rightarrow> JStr t)"
  by (simp_all add: review_asdict_def get_def)

lemma put_review_absent:
  assumes "get content ''stars'' \<noteq> JNull" "\<forall>r \<in> set (reviews s). r_id r \<noteq> i"
  shows "put_review rq i content s = (Inr (Obj ERROR_REVIEW_NOT_FOUND, 404), s)"
proof -
  from assms(2) have "select_review i s = []"
    by (simp add: select_review_def filter_empty_conv)
  with assms(1) show ?thesis by (simp add: put_review_def)
qed

lemma stored_text_accepted:
  assumes "review_row_ok r"
  shows "nullable_varchar_column 1000 (case r_review_text r of None \<Rightarrow> JNull | Some t \<Rightarrow> JStr t)
           = Some (r_review_text r)"
  using assms
  by (auto simp: review_row_ok_def nullable_varchar_column_def varchar_column_def
      split: option.splits)

lemma supplied_text:
  assumes "map_of content ''review_text'' = Some v" "nullable_varchar_column 1000 v = Some t"
  shows "get_default content ''review_text'' d = (case t of None \<Rightarrow> JNull | Some x \<Rightarrow> JStr x)"
  using assms nullable_varchar_column_Some[OF assms(2)]
  by (auto simp: get_default_def split: option.splits)

lemma put_review_present:
  assumes reach: "reachable s" and r: "r \<in> set (reviews s)" "r_id r = i"
    and stars: "stars_column (get content ''stars'') = Some n"
    and tx: "(case map_of content ''review_text'' of
                  None \<Rightarrow> Some (r_review_text r)
                | Some v \<Rightarrow> nullable_varchar_column 1000 v) = Some t"
  shows "put_review rq i content s =
     (Inr (Obj [(''id'', JInt (int i)), (''user_id'', JInt (r_user_id r)),
                (''business'', JStr (url_root rq @ ''businesses/'' @ str_int (r_business_id r))),
                (''stars'', get content ''stars''),
                (''review_text'', (case t of None \<Rightarrow> JNull | Some x \<Rightarrow> JStr x)),
                (''self'', JStr (url rq))], 200),
      s\<lparr>reviews := map (\<lambda>x. if r_id x = i then x\<lparr>r_stars := n, r_review_text := t\<rparr> else x)
                       (reviews s)\<rparr>)"
proof -
  let ?old = "case r_review_text r of None \<Rightarrow> JNull | Some t \<Rightarrow> JStr t"
  let ?new = "get_default content ''review_text'' ?old"
  from select_review_single[OF reachable_keys_ok[OF reach] r(1)] r(2)
  have sel: "select_review i s = [r]" by simp
  from stars_column_Some[OF stars] have st: "get content ''stars'' = JInt n" by simp
  from reachable_rows_ok[OF reach] r(1) have ok: "review_row_ok r" by blast
  have new: "?new = (case t of None \<Rightarrow> JNull | Some x \<Rightarrow> JStr x)
             \<and> nullable_varchar_column 1000 ?new = Some t"
  proof (cases "map_of content ''review_text''")
    case None
    with tx have "t = r_review_text r" by simp
    with None stored_text_accepted[OF ok] show ?thesis by (simp add: get_default_def)
  next
    case (Some v)
    with tx have v: "nullable_varchar_column 1000 v = Some t" by simp
    from supplied_text[OF Some v, of ?old] Some v show ?thesis by (simp add: get_default_def)
  qed
  note new1 = conjunct1[OF new]
  note new2 = conjunct2[OF new, unfolded new1]
  have upd: "update_review i [(''stars'', JInt n),
                              (''review_text'', (case t of None \<Rightarrow> JNull | Some x \<Rightarrow> JStr x)),
                              (''review_id'', JInt (int i))] s
             = Inr (s\<lparr>reviews := map (\<lambda>x. if r_id x = i then x\<lparr>r_stars := n, r_review_text := t\<rparr>
                                              else x) (reviews s)\<rparr>)"
    using new2 stars[unfolded st] by (simp add: update_review_def sel get_def)
  show ?thesis
    unfolding put_review_def
    using r(2) by (simp add: st sel review_asdict_get new1 upd Let_def str_def BUSINESSES_def)
qed

lemma put_review_refused:
  assumes reach: "reachable s" and r: "r \<in> set (reviews s)" "r_id r = i"
    and present: "get content ''stars'' \<noteq> JNull"
    and bad: "stars_column (get content ''stars'') = None
              \<or> (\<exists>v. map_of content ''review_text'' = Some v \<and> nullable_varchar_column 1000 v = None)"
  shows "put_review rq i content s = (Inl DBAPIError, s)"
proof -
  from select_review_single[OF reachable_keys_ok[OF reach] r(1)] r(2)
  have sel: "select_review i s = [r]" by simp
  have "update_review i [(''stars'', get content ''stars''),
          (''review_text'', get_default content ''review_text'' d),
          (''review_id'', JInt (int i))] s = Inl DBAPIError" for d
    using bad by (auto simp: update_review_def sel get_def get_default_def split: option.splits)
  then show ?thesis
    unfolding put_review_def by (simp add: present sel Let_def)
qed

section \<open>One review per user and business\<close>



section \<open>Deleting a business and its reviews\<close>

text \<open>
  C2. Delete(Business) first deletes every review whose \<^verbatim>\<open>business_id\<close> is the given id
  (the statement raises nothing when there is none, and leaves the businesses alone),
  then deletes the business row. It answers 404 \<^verbatim>\<open>ERROR_BUSINESS_NOT_FOUND\<close> exactly when
  the row count of the second deletion is zero, that is when no business had the id, and
  the empty body with 204 otherwise. After a 204, Get of the business and Get of every
  review that referred to it answer 404.
\<close>

theorem delete_business_cascade:
  assumes "reachable s"
  shows "snd (delete_business i s) = snd (delete_business_row i (snd (delete_reviews_of_business i s)))
     \<and> reviews (snd (delete_reviews_of_business i s))
         = filter (\<lambda>r. r_business_id r \<noteq> int i) (reviews s)
     \<and> businesses (snd (delete_reviews_of_business i s)) = businesses s
     \<and> reviews (snd (delete_business i s)) = filter (\<lambda>r. r_business_id r \<noteq> int i) (reviews s)
     \<and> businesses (snd (delete_business i s)) = filter (\<lambda>b. b_id b \<noteq> i) (businesses s)
     \<and> fst (delete_business i s) =
         (if fst (delete_business_row i (snd (delete_reviews_of_business i s))) = 0
          then Inr (Obj ERROR_BUSINESS_NOT_FOUND, 404) else Inr (Empty, 204))
     \<and> (fst (delete_business_row i (snd (delete_reviews_of_business i s))) = 0
          \<longleftrightarrow> (\<forall>b \<in> set (businesses s). b_id b \<noteq> i))
     \<and> (fst (delete_business i s) = Inr (Empty, 204) \<longrightarrow>
          get_business rq i (snd (delete_business i s))
            = (Inr (Obj ERROR_BUSINESS_NOT_FOUND, 404), snd (delete_business i s))
          \<and> (\<forall>r \<in> set (reviews s). r_business_id r = int i \<longrightarrow>
                get_review rq' (r_id r) (snd (delete_business i s))
                  = (Inr (Obj ERROR_REVIEW_NOT_FOUND, 404), snd (delete_business i s))))"
proof -
  from reachable_keys_ok[OF assms] have k: "keys_ok s" .
  then have db: "distinct (map b_id (businesses s))" and dr: "distinct (map r_id (reviews s))"
    by (simp_all add: keys_ok_def)
  have rc: "fst (delete_business_row i (snd (delete_reviews_of_business i s)))
              = (if i \<in> b_id ` set (businesses s) then 1 else 0)"
    using filter_key_length[OF db, of i]
    by (simp add: delete_business_row_def delete_reviews_of_business_def select_business_def)
  have 1: "snd (delete_business i s) = snd (delete_business_row i (snd (delete_reviews_of_business i s)))"
    by (simp add: delete_business_def Let_def split: prod.splits)
  have 2: "reviews (snd (delete_reviews_of_business i s))
         = filter (\<lambda>r. r_business_id r \<noteq> int i) (reviews s)"
    and 3: "businesses (snd (delete_reviews_of_business i s)) = businesses s"
    by (simp_all add: delete_reviews_of_business_def)
  have 4: "reviews (snd (delete_business i s)) = filter (\<lambda>r. r_business_id r \<noteq> int i) (reviews s)"
    and 5: "businesses (snd (delete_business i s)) = filter (\<lambda>b. b_id b \<noteq> i) (businesses s)"
    by (simp_all add: delete_business_state)
  have 6: "fst (delete_business i s) =
         (if fst (delete_business_row i (snd (delete_reviews_of_business i s))) = 0
          then Inr (Obj ERROR_BUSINESS_NOT_FOUND, 404) else Inr (Empty, 204))"
    by (simp add: rc delete_business_answer[OF k])
  have 7: "fst (delete_business_row i (snd (delete_reviews_of_business i s))) = 0
          \<longleftrightarrow> (\<forall>b \<in> set (businesses s). b_id b \<noteq> i)"
    by (auto simp: rc)
  have 8: "get_business rq i (snd (delete_business i s))
            = (Inr (Obj ERROR_BUSINESS_NOT_FOUND, 404), snd (delete_business i s))"
    by (rule get_business_absent) (simp add: 5)
  have 9: "get_review rq' (r_id r) (snd (delete_business i s))
                  = (Inr (Obj ERROR_REVIEW_NOT_FOUND, 404), snd (delete_business i s))"
    if "r \<in> set (reviews s)" "r_business_id r = int i" for r
  proof (rule get_review_absent, rule ballI)
    fix y assume "y \<in> set (reviews (snd (delete_business i s)))"
    then have y: "y \<in> set (reviews s)" "r_business_id y \<noteq> int i" by (simp_all add: 4)
    show "r_id y \<noteq> r_id r"
    proof
      assume "r_id y = r_id r"
      with dr y(1) that(1) have "y = r" by (auto simp: distinct_map dest: inj_onD)
      with y(2) that(2) show False by simp
    qed
  qed
  from 1 2 3 4 5 6 7 8 9 show ?thesis by blast
qed

theorem delete_business_cascade_witness:
  "reachable example_db
   \<and> delete_business 1 example_db = (Inr (Empty, 204), example_db\<lparr>reviews := [], businesses := []\<rparr>)
   \<and> get_business (example_request ''businesses/1'') 1 (snd (delete_business 1 example_db))
       = (Inr (Obj ERROR_BUSINESS_NOT_FOUND, 404), snd (delete_business 1 example_db))
   \<and> get_review (example_request ''reviews/1'') 1 (snd (delete_business 1 example_db))
       = (Inr (Obj ERROR_REVIEW_NOT_FOUND, 404), snd (delete_business 1 example_db))
   \<and> fst (delete_business 2 example_db) = Inr (Obj ERROR_BUSINESS_NOT_FOUND, 404)"
proof -
  note t = delete_business_cascade[OF reachable_example_db, of 1
      "example_request ''businesses/1''" "example_request ''reviews/1''"]
  note u = delete_business_cascade[OF reachable_example_db, of 2]
  have ok: "fst (delete_business 1 example_db) = Inr (Empty, 204)"
    unfolding example_db_eq by code_simp
  from t have st: "snd (delete_business 1 example_db) = example_db\<lparr>reviews := [], businesses := []\<rparr>"
    by (simp add: example_db_eq delete_business_state)
  from ok st have c1: "delete_business 1 example_db
      = (Inr (Empty, 204), example_db\<lparr>reviews := [], businesses := []\<rparr>)"
    by (simp add: prod_eq_iff)
  from t ok have c2: "get_business (example_request ''businesses/1'') 1 (snd (delete_business 1 example_db))
       = (Inr (Obj ERROR_BUSINESS_NOT_FOUND, 404), snd (delete_business 1 example_db))"
    by blast
  have r: "\<lparr>r_id = 1, r_user_id = 3, r_business_id = 1, r_stars = 4, r_review_text = Some ''Good''\<rparr>
             \<in> set (reviews example_db)"
    by (simp add: example_db_eq)
  from t ok have "\<forall>r \<in> set (reviews example_db). r_business_id r = int 1 \<longrightarrow>
                get_review (example_request ''reviews/1'') (r_id r) (snd (delete_business 1 example_db))
                  = (Inr (Obj ERROR_REVIEW_NOT_FOUND, 404), snd (delete_business 1 example_db))"
    by blast
  from bspec[OF this r] have c3: "get_review (example_request ''reviews/1'') 1 (snd (delete_business 1 example_db))
       = (Inr (Obj ERROR_REVIEW_NOT_FOUND, 404), snd (delete_business 1 example_db))"
    by simp
  have "\<forall>b \<in> set (businesses example_db). b_id b \<noteq> 2"
    by (simp add: example_db_eq)
  with u have c4: "fst (delete_business 2 example_db) = Inr (Obj ERROR_BUSINESS_NOT_FOUND, 404)"
    by simp
  show ?thesis
    by (intro conjI reachable_example_db c1 c2 c3 c4)
qed

section \<open>The checks of Create(Review)\<close>




section \<open>The field count of a business body\<close>

text \<open>
  C4, as amended. Create(Business) and Update(Business) answer 400
  \<^verbatim>\<open>ERROR_MISSING_ATTRIBUTES\<close> exactly when the number of fields of the body is not 6. In
  particular a body made of required fields only, with some of the six missing, and a
  body with the six required fields and more, get 400 with the tables unchanged; a body
  with exactly the six required fields does not get 400.
\<close>

theorem business_field_count:
  "(fst (post_business rq content s) = Inr (Obj ERROR_MISSING_ATTRIBUTES, 400) \<longleftrightarrow> len content \<noteq> 6)
   \<and> (fst (put_business rq' i content s) = Inr (Obj ERROR_MISSING_ATTRIBUTES, 400)
        \<longleftrightarrow> len content \<noteq> 6)
   \<and> (fst ` set content \<subset> {''owner_id'', ''name'', ''street_address'', ''city'', ''state'', ''zip_code''}
        \<or> {''owner_id'', ''name'', ''street_address'', ''city'', ''state'', ''zip_code''} \<subset> fst ` set content
      \<longrightarrow> post_business rq content s = (Inr (Obj ERROR_MISSING_ATTRIBUTES, 400), s)
          \<and> put_business rq' i content s = (Inr (Obj ERROR_MISSING_ATTRIBUTES, 400), s))
   \<and> (fst ` set content = {''owner_id'', ''name'', ''street_address'', ''city'', ''state'', ''zip_code''}
      \<longrightarrow> fst (post_business rq content s) \<noteq> Inr (Obj ERROR_MISSING_ATTRIBUTES, 400)
          \<and> fst (put_business rq' i content s) \<noteq> Inr (Obj ERROR_MISSING_ATTRIBUTES, 400))"
proof (intro conjI impI)
  show "fst (post_business rq content s) = Inr (Obj ERROR_MISSING_ATTRIBUTES, 400) \<longleftrightarrow> len content \<noteq> 6"
    by (rule post_business_400)
  show "fst (put_business rq' i content s) = Inr (Obj ERROR_MISSING_ATTRIBUTES, 400) \<longleftrightarrow> len content \<noteq> 6"
    by (rule put_business_400)
next
  assume "fst ` set content \<subset> {''owner_id'', ''name'', ''street_address'', ''city'', ''state'', ''zip_code''}
        \<or> {''owner_id'', ''name'', ''street_address'', ''city'', ''state'', ''zip_code''} \<subset> fst ` set content"
  then have n: "len content \<noteq> 6"
  proof
    assume "fst ` set content \<subset> {''owner_id'', ''name'', ''street_address'', ''city'', ''state'', ''zip_code''}"
    from len_psubset[OF this] show ?thesis by simp
  next
    assume "{''owner_id'', ''name'', ''street_address'', ''city'', ''state'', ''zip_code''} \<subset> fst ` set content"
    from len_psupset[OF this] show ?thesis by simp
  qed
  then show "post_business rq content s = (Inr (Obj ERROR_MISSING_ATTRIBUTES, 400), s)"
    by (simp add: post_business_def)
  from n show "put_business rq' i content s = (Inr (Obj ERROR_MISSING_ATTRIBUTES, 400), s)"
    by (simp add: put_business_def)
next
  assume "fst ` set content = {''owner_id'', ''name'', ''street_address'', ''city'', ''state'', ''zip_code''}"
  then have "len content = card {''owner_id'', ''name'', ''street_address'', ''city'', ''state'', ''zip_code''}"
    by (simp only: len_card)
  with six_fields have n: "len content = 6"
    by (simp only:)
  from n post_business_400[of rq content s]
  show "fst (post_business rq content s) \<noteq> Inr (Obj ERROR_MISSING_ATTRIBUTES, 400)"
    by blast
  from n put_business_400[of rq' i content s]
  show "fst (put_business rq' i content s) \<noteq> Inr (Obj ERROR_MISSING_ATTRIBUTES, 400)"
    by blast
qed

theorem business_field_count_witness:
  "fst ` set [(''owner_id'', JInt 7), (''name'', JStr ''Cafe'')]
     \<subset> {''owner_id'', ''name'', ''street_address'', ''city'', ''state'', ''zip_code''}
   \<and> post_business (example_request ''businesses'')
        [(''owner_id'', JInt 7), (''name'', JStr ''Cafe'')] example_db
       = (Inr (Obj ERROR_MISSING_ATTRIBUTES, 400), example_db)
   \<and> put_business (example_request ''businesses/1'') 1
        [(''owner_id'', JInt 7), (''name'', JStr ''Cafe'')] example_db
       = (Inr (Obj ERROR_MISSING_ATTRIBUTES, 400), example_db)
   \<and> fst ` set example_business
       = {''owner_id'', ''name'', ''street_address'', ''city'', ''state'', ''zip_code''}
   \<and> fst (post_business (example_request ''businesses'') example_business example_db)
       \<noteq> Inr (Obj ERROR_MISSING_ATTRIBUTES, 400)
   \<and> fst (put_business (example_request ''businesses/1'') 1 example_business example_db)
       \<noteq> Inr (Obj ERROR_MISSING_ATTRIBUTES, 400)"
proof -
  have "fst ` set [(''owner_id'', JInt 7), (''name'', JStr ''Cafe'')]
     \<subseteq> {''owner_id'', ''name'', ''street_address'', ''city'', ''state'', ''zip_code''}"
    by simp
  moreover have "fst ` set [(''owner_id'', JInt 7), (''name'', JStr ''Cafe'')]
     \<noteq> {''owner_id'', ''name'', ''street_address'', ''city'', ''state'', ''zip_code''}"
  proof
    assume e: "fst ` set [(''owner_id'', JInt 7), (''name'', JStr ''Cafe'')]
       = {''owner_id'', ''name'', ''street_address'', ''city'', ''state'', ''zip_code''}"
    have "''zip_code'' \<in> {''owner_id'', ''name'', ''street_address'', ''city'', ''state'', ''zip_code''}"
      by simp
    then have "''zip_code'' \<in> fst ` set [(''owner_id'', JInt 7), (''name'', JStr ''Cafe'')]"
      unfolding e .
    then show False by simp
  qed
  ultimately have sub: "fst ` set [(''owner_id'', JInt 7), (''name'', JStr ''Cafe'')]
     \<subset> {''owner_id'', ''name'', ''street_address'', ''city'', ''state'', ''zip_code''}"
    by (rule psubsetI)
  have eq: "fst ` set example_business
       = {''owner_id'', ''name'', ''street_address'', ''city'', ''state'', ''zip_code''}"
    by (simp add: example_business_def)
  note t = business_field_count[of "example_request ''businesses''"
      "[(''owner_id'', JInt 7), (''name'', JStr ''Cafe'')]" example_db
      "example_request ''businesses/1''" 1]
  note u = business_field_count[of "example_request ''businesses''" example_business example_db
      "example_request ''businesses/1''" 1]
  from t sub have c1: "post_business (example_request ''businesses'')
        [(''owner_id'', JInt 7), (''name'', JStr ''Cafe'')] example_db
       = (Inr (Obj ERROR_MISSING_ATTRIBUTES, 400), example_db)"
    and c2: "put_business (example_request ''businesses/1'') 1
        [(''owner_id'', JInt 7), (''name'', JStr ''Cafe'')] example_db
       = (Inr (Obj ERROR_MISSING_ATTRIBUTES, 400), example_db)"
    by blast+
  from u eq have c3: "fst (post_business (example_request ''businesses'') example_business example_db)
       \<noteq> Inr (Obj ERROR_MISSING_ATTRIBUTES, 400)"
    and c4: "fst (put_business (example_request ''businesses/1'') 1 example_business example_db)
       \<noteq> Inr (Obj ERROR_MISSING_ATTRIBUTES, 400)"
    by blast+
  show ?thesis
    by (intro conjI sub c1 c2 eq c3 c4)
qed

text \<open>
  The claim as it was stated says that a body missing any of the six required fields gets
  400. A body that has five of them and one other field has six fields: the count check
  passes, and reading the absent \<^verbatim>\<open>zip_code\<close> raises \<^verbatim>\<open>KeyError\<close> instead.
\<close>

theorem business_field_count_counterexample:
  "''zip_code'' \<notin> fst ` set [(''owner_id'', JInt 7), (''name'', JStr ''Cafe''),
        (''street_address'', JStr ''1 Main St''), (''city'', JStr ''Corvallis''),
        (''state'', JStr ''OR''), (''phone'', JStr ''5550100'')]
   \<and> ''phone'' \<notin> {''owner_id'', ''name'', ''street_address'', ''city'', ''state'', ''zip_code''}
   \<and> post_business (example_request ''businesses'')
        [(''owner_id'', JInt 7), (''name'', JStr ''Cafe''),
         (''street_address'', JStr ''1 Main St''), (''city'', JStr ''Corvallis''),
         (''state'', JStr ''OR''), (''phone'', JStr ''5550100'')] create_table
       = (Inl (KeyError ''zip_code''), create_table)
   \<and> put_business (example_request ''businesses/1'') 1
        [(''owner_id'', JInt 7), (''name'', JStr ''Cafe''),
         (''street_address'', JStr ''1 Main St''), (''city'', JStr ''Corvallis''),
         (''state'', JStr ''OR''), (''phone'', JStr ''5550100'')] example_db
       = (Inl (KeyError ''zip_code''), example_db)"
  unfolding example_db_eq by code_simp

section \<open>Every review refers to a stored business\<close>

text \<open>
  C5. In every state reached from the empty tables by handling requests one after the
  other, the \<^verbatim>\<open>business_id\<close> of every stored review is the id of a stored business.
  Create(Review) checks that the business exists before it inserts: for a body whose
  \<^verbatim>\<open>business_id\<close> is an integer that is the id of no stored business it answers 400 or 404
  and the tables are unchanged. Delete(Business) removes the reviews that refer to the
  business together with its row.
\<close>

theorem review_references_business:
  assumes "reachable s"
  shows "(\<forall>r \<in> set (reviews s). \<exists>b \<in> set (businesses s). int (b_id b) = r_business_id r)
     \<and> (get content ''business_id'' = JInt b
            \<and> (\<forall>x \<in> set (businesses s). int (b_id x) \<noteq> b) \<longrightarrow>
          snd (post_review rq content s) = s
          \<and> (fst (post_review rq content s) = Inr (Obj ERROR_MISSING_ATTRIBUTES, 400)
             \<or> fst (post_review rq content s) = Inr (Obj ERROR_BUSINESS_NOT_FOUND, 404)))
     \<and> reviews (snd (delete_business i s)) = filter (\<lambda>r. r_business_id r \<noteq> int i) (reviews s)
     \<and> businesses (snd (delete_business i s)) = filter (\<lambda>b. b_id b \<noteq> i) (businesses s)"
proof (intro conjI impI; (elim conjE)?)
  from reachable_references_ok[OF assms]
  show "\<forall>r \<in> set (reviews s). \<exists>b \<in> set (businesses s). int (b_id b) = r_business_id r"
    by (simp add: references_ok_def)
next
  assume "get content ''business_id'' = JInt b"
    and "\<forall>x \<in> set (businesses s). int (b_id x) \<noteq> b"
  then have a: "\<forall>x \<in> set (businesses s). get content ''business_id'' \<noteq> JInt (int (b_id x))"
    by auto
  show "snd (post_review rq content s) = s"
    by (simp add: post_review_no_business[OF a])
  show "fst (post_review rq content s) = Inr (Obj ERROR_MISSING_ATTRIBUTES, 400)
             \<or> fst (post_review rq content s) = Inr (Obj ERROR_BUSINESS_NOT_FOUND, 404)"
    by (simp add: post_review_no_business[OF a])
next
  show "reviews (snd (delete_business i s)) = filter (\<lambda>r. r_business_id r \<noteq> int i) (reviews s)"
    by (simp add: delete_business_state)
  show "businesses (snd (delete_business i s)) = filter (\<lambda>b. b_id b \<noteq> i) (businesses s)"
    by (simp add: delete_business_state)
qed

theorem review_references_business_witness:
  "reachable example_db
   \<and> map r_business_id (reviews example_db) = [1] \<and> map b_id (businesses example_db) = [1]
   \<and> post_review (example_request ''reviews'')
        [(''user_id'', JInt 3), (''business_id'', JInt 2), (''stars'', JInt 4)] example_db
       = (Inr (Obj ERROR_BUSINESS_NOT_FOUND, 404), example_db)
   \<and> reviews (snd (delete_business 1 example_db)) = []
   \<and> businesses (snd (delete_business 1 example_db)) = []"
proof -
  note t = review_references_business[OF reachable_example_db,
      where content = "[(''user_id'', JInt 3), (''business_id'', JInt 2), (''stars'', JInt 4)]"
        and rq = "example_request ''reviews''" and i = 1 and b = 2]
  have given: "get [(''user_id'', JInt 3), (''business_id'', JInt 2), (''stars'', JInt 4)]
      ''business_id'' = JInt 2"
    by (simp add: get_def)
  have absent: "\<forall>x \<in> set (businesses example_db). int (b_id x) \<noteq> 2"
    by (simp add: example_db_eq)
  from t given absent have unchanged: "snd (post_review (example_request ''reviews'')
        [(''user_id'', JInt 3), (''business_id'', JInt 2), (''stars'', JInt 4)] example_db)
       = example_db"
    by blast
  have answer: "fst (post_review (example_request ''reviews'')
        [(''user_id'', JInt 3), (''business_id'', JInt 2), (''stars'', JInt 4)] example_db)
       = Inr (Obj ERROR_BUSINESS_NOT_FOUND, 404)"
    unfolding example_db_eq by code_simp
  have c1: "map r_business_id (reviews example_db) = [1]"
    and c2: "map b_id (businesses example_db) = [1]"
    by (simp_all add: example_db_eq)
  from unchanged answer have c3: "post_review (example_request ''reviews'')
        [(''user_id'', JInt 3), (''business_id'', JInt 2), (''stars'', JInt 4)] example_db
       = (Inr (Obj ERROR_BUSINESS_NOT_FOUND, 404), example_db)"
    by (simp add: prod_eq_iff)
  from t have c4: "reviews (snd (delete_business 1 example_db)) = []"
    by (simp add: example_db_eq)
  from t have c5: "businesses (snd (delete_business 1 example_db)) = []"
    by (simp add: example_db_eq)
  show ?thesis
    by (intro conjI reachable_example_db c1 c2 c3 c4 c5)
qed

section \<open>The paginated list of businesses\<close>




section \<open>Update(Review)\<close>

text \<open>
  C7, as amended. In every reachable state Update(Review) answers 400
  \<^verbatim>\<open>ERROR_MISSING_ATTRIBUTES\<close> when \<^verbatim>\<open>stars\<close> is absent (or null) and 404
  \<^verbatim>\<open>ERROR_REVIEW_NOT_FOUND\<close> when no row has the id. Otherwise, when \<^verbatim>\<open>stars\<close> is an integer
  from 0 to 5 and the \<^verbatim>\<open>review_text\<close> of the body, if it has one, is null or a text of at
  most 1000 characters, it overwrites \<^verbatim>\<open>stars\<close>, overwrites \<^verbatim>\<open>review_text\<close> exactly when the
  body supplies it and keeps the stored one when it does not, and answers 200 with the
  updated representation, its \<^verbatim>\<open>business\<close> link and its \<^verbatim>\<open>self\<close> link; when \<^verbatim>\<open>stars\<close> is an integer
  outside 0 to 5, the store refuses the update, the handler raises and the row is as
  before. In all cases the id and the \<^verbatim>\<open>user_id\<close> of every row are unchanged.
\<close>

theorem put_review_overwrites:
  assumes "reachable s"
  shows "(get content ''stars'' = JNull \<longrightarrow>
          put_review rq i content s = (Inr (Obj ERROR_MISSING_ATTRIBUTES, 400), s))
     \<and> (get content ''stars'' \<noteq> JNull \<and> (\<forall>r \<in> set (reviews s). r_id r \<noteq> i) \<longrightarrow>
          put_review rq i content s = (Inr (Obj ERROR_REVIEW_NOT_FOUND, 404), s))
     \<and> (r \<in> set (reviews s) \<and> r_id r = i
          \<and> stars_column (get content ''stars'') = Some n
          \<and> (case map_of content ''review_text'' of
                None \<Rightarrow> Some (r_review_text r)
              | Some v \<Rightarrow> nullable_varchar_column 1000 v) = Some t \<longrightarrow>
          put_review rq i content s =
            (Inr (Obj [(''id'', JInt (int i)), (''user_id'', JInt (r_user_id r)),
                       (''business'', JStr (url_root rq @ ''businesses/''
                                              @ str_int (r_business_id r))),
                       (''stars'', get content ''stars''),
                       (''review_text'', (case t of None \<Rightarrow> JNull | Some x \<Rightarrow> JStr x)),
                       (''self'', JStr (url rq))], 200),
             s\<lparr>reviews := map (\<lambda>x. if r_id x = i then x\<lparr>r_stars := n, r_review_text := t\<rparr>
                                       else x) (reviews s)\<rparr>)
          \<and> get content ''stars'' = JInt n
          \<and> (map_of content ''review_text'' = None \<longrightarrow> t = r_review_text r)
          \<and> (\<forall>x. map_of content ''review_text'' = Some (JStr x) \<longrightarrow> t = Some x))
     \<and> (r \<in> set (reviews s) \<and> r_id r = i \<and> get content ''stars'' = JInt n
          \<and> (n < 0 \<or> 5 < n) \<longrightarrow>
          put_review rq i content s = (Inl DBAPIError, s))
     \<and> map (\<lambda>x. (r_id x, r_user_id x)) (reviews (snd (put_review rq i content s)))
         = map (\<lambda>x. (r_id x, r_user_id x)) (reviews s)"
proof -
  have 1: "put_review rq i content s = (Inr (Obj ERROR_MISSING_ATTRIBUTES, 400), s)"
    if "get content ''stars'' = JNull"
    using that by (simp add: put_review_def)
  have 2: "put_review rq i content s = (Inr (Obj ERROR_REVIEW_NOT_FOUND, 404), s)"
    if "get content ''stars'' \<noteq> JNull \<and> (\<forall>r \<in> set (reviews s). r_id r \<noteq> i)"
    using that put_review_absent[of content s i rq] by blast
  have 3: "put_review rq i content s =
            (Inr (Obj [(''id'', JInt (int i)), (''user_id'', JInt (r_user_id r)),
                       (''business'', JStr (url_root rq @ ''businesses/''
                                              @ str_int (r_business_id r))),
                       (''stars'', get content ''stars''),
                       (''review_text'', (case t of None \<Rightarrow> JNull | Some x \<Rightarrow> JStr x)),
                       (''self'', JStr (url rq))], 200),
             s\<lparr>reviews := map (\<lambda>x. if r_id x = i then x\<lparr>r_stars := n, r_review_text := t\<rparr>
                                       else x) (reviews s)\<rparr>)
          \<and> get content ''stars'' = JInt n
          \<and> (map_of content ''review_text'' = None \<longrightarrow> t = r_review_text r)
          \<and> (\<forall>x. map_of content ''review_text'' = Some (JStr x) \<longrightarrow> t = Some x)"
    if h: "r \<in> set (reviews s) \<and> r_id r = i
          \<and> stars_column (get content ''stars'') = Some n
          \<and> (case map_of content ''review_text'' of
                None \<Rightarrow> Some (r_review_text r)
              | Some v \<Rightarrow> nullable_varchar_column 1000 v) = Some t"
  proof -
    from h have a: "r \<in> set (reviews s)" and b: "r_id r = i"
      and c: "stars_column (get content ''stars'') = Some n"
      and d: "(case map_of content ''review_text'' of
                None \<Rightarrow> Some (r_review_text r)
              | Some v \<Rightarrow> nullable_varchar_column 1000 v) = Some t"
      by blast+
    note p = put_review_present[OF assms a b c d, of rq]
    from stars_column_Some[OF c] have st: "get content ''stars'' = JInt n" by simp
    have o: "t = r_review_text r" if "map_of content ''review_text'' = None"
      using d that by simp
    have w: "t = Some x" if "map_of content ''review_text'' = Some (JStr x)" for x
      using d that nullable_varchar_column_Some[of 1000 "JStr x" t]
      by (auto split: option.splits)
    from p st o w show ?thesis by blast
  qed
  have 4: "put_review rq i content s = (Inl DBAPIError, s)"
    if h: "r \<in> set (reviews s) \<and> r_id r = i \<and> get content ''stars'' = JInt n
          \<and> (n < 0 \<or> 5 < n)"
  proof -
    from h have a: "r \<in> set (reviews s)" and b: "r_id r = i"
      and e: "get content ''stars'' = JInt n" and f: "n < 0 \<or> 5 < n"
      by blast+
    from e have c: "get content ''stars'' \<noteq> JNull"
      by simp
    from stars_column_out_of_range[OF f] e
    have "stars_column (get content ''stars'') = None"
      by simp
    then have d: "stars_column (get content ''stars'') = None
              \<or> (\<exists>v. map_of content ''review_text'' = Some v
                     \<and> nullable_varchar_column 1000 v = None)"
      by (rule disjI1)
    show ?thesis by (rule put_review_refused[OF assms a b c d])
  qed
  have "(\<lambda>x. (r_id x, r_user_id x))
          \<circ> (\<lambda>x. if r_id x = i then x\<lparr>r_stars := st, r_review_text := tx\<rparr> else x)
        = (\<lambda>x. (r_id x, r_user_id x))" for st tx
    by (auto simp: fun_eq_iff)
  with put_review_cases[of rq i content s]
  have 5: "map (\<lambda>x. (r_id x, r_user_id x)) (reviews (snd (put_review rq i content s)))
         = map (\<lambda>x. (r_id x, r_user_id x)) (reviews s)"
    by auto
  show ?thesis
    by (intro conjI; (rule 5 | (rule impI, (erule 1 | erule 2 | erule 3 | erule 4))))
qed

theorem put_review_overwrites_witness:
  "reachable example_db
   \<and> put_review (example_request ''reviews/1'') 1 [] example_db
       = (Inr (Obj ERROR_MISSING_ATTRIBUTES, 400), example_db)
   \<and> put_review (example_request ''reviews/5'') 5 [(''stars'', JInt 2)] example_db
       = (Inr (Obj ERROR_REVIEW_NOT_FOUND, 404), example_db)
   \<and> put_review (example_request ''reviews/1'') 1 [(''stars'', JInt 2)] example_db
       = (Inr (Obj [(''id'', JInt 1), (''user_id'', JInt 3),
                    (''business'', JStr ''http://localhost:8080/businesses/1''),
                    (''stars'', JInt 2), (''review_text'', JStr ''Good''),
                    (''self'', JStr ''http://localhost:8080/reviews/1'')], 200),
          example_db\<lparr>reviews := [\<lparr>r_id = 1, r_user_id = 3, r_business_id = 1, r_stars = 2,
                                     r_review_text = Some ''Good''\<rparr>]\<rparr>)
   \<and> put_review (example_request ''reviews/1'') 1
        [(''stars'', JInt 2), (''review_text'', JStr ''Bad'')] example_db
       = (Inr (Obj [(''id'', JInt 1), (''user_id'', JInt 3),
                    (''business'', JStr ''http://localhost:8080/businesses/1''),
                    (''stars'', JInt 2), (''review_text'', JStr ''Bad''),
                    (''self'', JStr ''http://localhost:8080/reviews/1'')], 200),
          example_db\<lparr>reviews := [\<lparr>r_id = 1, r_user_id = 3, r_business_id = 1, r_stars = 2,
                                     r_review_text = Some ''Bad''\<rparr>]\<rparr>)"
proof -
  let ?r = "\<lparr>r_id = 1, r_user_id = 3, r_business_id = 1, r_stars = 4,
             r_review_text = Some ''Good''\<rparr>"
  note t = put_review_overwrites[OF reachable_example_db]
  have rs: "reviews example_db = [?r]" by (simp add: example_db_eq)
  have c1: "put_review (example_request ''reviews/1'') 1 [] example_db
       = (Inr (Obj ERROR_MISSING_ATTRIBUTES, 400), example_db)"
  proof -
    have "get [] ''stars'' = JNull" by (simp add: get_def)
    with t[of "[]" "example_request ''reviews/1''" 1] show ?thesis by blast
  qed
  have c2: "put_review (example_request ''reviews/5'') 5 [(''stars'', JInt 2)] example_db
       = (Inr (Obj ERROR_REVIEW_NOT_FOUND, 404), example_db)"
  proof -
    have "get [(''stars'', JInt 2)] ''stars'' \<noteq> JNull" by (simp add: get_def)
    moreover have "\<forall>r \<in> set (reviews example_db). r_id r \<noteq> 5" by (simp add: rs)
    ultimately show ?thesis
      using t[of "[(''stars'', JInt 2)]" "example_request ''reviews/5''" 5] by blast
  qed
  have u: "url_root (example_request ''reviews/1'') = ''http://localhost:8080/''"
    "str_int 1 = ''1''"
    "url (example_request ''reviews/1'') = ''http://localhost:8080/reviews/1''"
    by (simp_all add: example_request_def url_def base_url_def str_int_def str_nat.simps digit_def)
  have m: "?r \<in> set (reviews example_db)" "r_id ?r = 1" by (simp_all add: rs)
  have c3: "put_review (example_request ''reviews/1'') 1 [(''stars'', JInt 2)] example_db
       = (Inr (Obj [(''id'', JInt 1), (''user_id'', JInt 3),
                    (''business'', JStr ''http://localhost:8080/businesses/1''),
                    (''stars'', JInt 2), (''review_text'', JStr ''Good''),
                    (''self'', JStr ''http://localhost:8080/reviews/1'')], 200),
          example_db\<lparr>reviews := [\<lparr>r_id = 1, r_user_id = 3, r_business_id = 1, r_stars = 2,
                                     r_review_text = Some ''Good''\<rparr>]\<rparr>)"
  proof -
    let ?c = "[(''stars'', JInt 2)]"
    have g: "get ?c ''stars'' = JInt 2" by (simp add: get_def)
    have "stars_column (get ?c ''stars'') = Some 2"
      by (simp add: g stars_column_def int_column_def)
    moreover have "(case map_of ?c ''review_text'' of
                None \<Rightarrow> Some (r_review_text ?r)
              | Some v \<Rightarrow> nullable_varchar_column 1000 v) = Some (Some ''Good'')"
      by simp
    ultimately have "put_review (example_request ''reviews/1'') 1 ?c example_db =
            (Inr (Obj [(''id'', JInt (int 1)), (''user_id'', JInt (r_user_id ?r)),
                       (''business'', JStr (url_root (example_request ''reviews/1'') @ ''businesses/''
                                              @ str_int (r_business_id ?r))),
                       (''stars'', get ?c ''stars''),
                       (''review_text'', (case Some ''Good'' of None \<Rightarrow> JNull | Some x \<Rightarrow> JStr x)),
                       (''self'', JStr (url (example_request ''reviews/1'')))], 200),
             example_db\<lparr>reviews := map (\<lambda>x. if r_id x = 1 then x\<lparr>r_stars := 2,
                                                     r_review_text := Some ''Good''\<rparr>
                                       else x) (reviews example_db)\<rparr>)"
      using t[of ?c "example_request ''reviews/1''" 1 ?r 2 "Some ''Good''"] m by blast
    then show ?thesis
      by (simp add: g rs u)
  qed
  have c4: "put_review (example_request ''reviews/1'') 1
        [(''stars'', JInt 2), (''review_text'', JStr ''Bad'')] example_db
       = (Inr (Obj [(''id'', JInt 1), (''user_id'', JInt 3),
                    (''business'', JStr ''http://localhost:8080/businesses/1''),
                    (''stars'', JInt 2), (''review_text'', JStr ''Bad''),
                    (''self'', JStr ''http://localhost:8080/reviews/1'')], 200),
          example_db\<lparr>reviews := [\<lparr>r_id = 1, r_user_id = 3, r_business_id = 1, r_stars = 2,
                                     r_review_text = Some ''Bad''\<rparr>]\<rparr>)"
  proof -
    let ?c = "[(''stars'', JInt 2), (''review_text'', JStr ''Bad'')]"
    have g: "get ?c ''stars'' = JInt 2" by (simp add: get_def)
    have "stars_column (get ?c ''stars'') = Some 2"
      by (simp add: g stars_column_def int_column_def)
    moreover have "(case map_of ?c ''review_text'' of
                None \<Rightarrow> Some (r_review_text ?r)
              | Some v \<Rightarrow> nullable_varchar_column 1000 v) = Some (Some ''Bad'')"
      by (simp add: nullable_varchar_column_def varchar_column_def)
    ultimately have "put_review (example_request ''reviews/1'') 1 ?c example_db =
            (Inr (Obj [(''id'', JInt (int 1)), (''user_id'', JInt (r_user_id ?r)),
                       (''business'', JStr (url_root (example_request ''reviews/1'') @ ''businesses/''
                                              @ str_int (r_business_id ?r))),
                       (''stars'', get ?c ''stars''),
                       (''review_text'', (case Some ''Bad'' of None \<Rightarrow> JNull | Some x \<Rightarrow> JStr x)),
                       (''self'', JStr (url (example_request ''reviews/1'')))], 200),
             example_db\<lparr>reviews := map (\<lambda>x. if r_id x = 1 then x\<lparr>r_stars := 2,
                                                     r_review_text := Some ''Bad''\<rparr>
                                       else x) (reviews example_db)\<rparr>)"
      using t[of ?c "example_request ''reviews/1''" 1 ?r 2 "Some ''Bad''"] m by blast
    then show ?thesis
      by (simp add: g rs u)
  qed
  show ?thesis
    by (intro conjI reachable_example_db c1 c2 c3 c4)
qed

text \<open>
  The claim as it was stated has the update for every body with \<^verbatim>\<open>stars\<close> and every
  existing id. With \<^verbatim>\<open>stars\<close> 6 the \<^verbatim>\<open>CHECK\<close> constraint of the table refuses the statement.
\<close>

theorem put_review_overwrites_counterexample:
  "get [(''stars'', JInt 6)] ''stars'' \<noteq> JNull
   \<and> map r_id (reviews example_db) = [1]
   \<and> put_review (example_request ''reviews/1'') 1 [(''stars'', JInt 6)] example_db
       = (Inl DBAPIError, example_db)"
  unfolding example_db_eq by code_simp

section \<open>Create, then Get, of a business\<close>

text \<open>
  C8. A valid business payload has exactly the six fields \<^verbatim>\<open>owner_id\<close>, \<^verbatim>\<open>name\<close>,
  \<^verbatim>\<open>street_address\<close>, \<^verbatim>\<open>city\<close>, \<^verbatim>\<open>state\<close> and \<^verbatim>\<open>zip_code\<close>, with values that the columns
  of the \<^verbatim>\<open>businesses\<close> table accept. In every reachable state Create(Business) of such a
  payload answers 201 with the id the store generated (an id no stored business has) and
  inserts one row; Get of that id right after answers 200 with the six values that were
  supplied.
\<close>

theorem create_then_get_business:
  assumes "reachable s"
    and fields: "fst ` set content
                 = {''owner_id'', ''name'', ''street_address'', ''city'', ''state'', ''zip_code''}"
    and "int_column (get content ''owner_id'') = Some owner"
    and "varchar_column 50 (get content ''name'') = Some name"
    and "varchar_column 100 (get content ''street_address'') = Some street"
    and "varchar_column 50 (get content ''city'') = Some city"
    and "varchar_column 2 (get content ''state'') = Some state"
    and "varchar_column 5 (get content ''zip_code'') = Some zipcode"
  shows "fst (post_business rq content s) =
           Inr (Obj [(''id'', JInt (int (next_business_id s))),
                     (''owner_id'', get content ''owner_id''), (''name'', get content ''name''),
                     (''street_address'', get content ''street_address''),
                     (''city'', get content ''city''), (''state'', get content ''state''),
                     (''zip_code'', get content ''zip_code''),
                     (''self'', JStr (url rq @ str_nat (next_business_id s)))], 201)
     \<and> businesses (snd (post_business rq content s)) =
         businesses s @ [\<lparr>b_id = next_business_id s, b_owner_id = owner, b_name = name,
                           b_street_address = street, b_city = city, b_state = state,
                           b_zip_code = zipcode\<rparr>]
     \<and> next_business_id s \<notin> b_id ` set (businesses s)
     \<and> get_business rq' (next_business_id s) (snd (post_business rq content s)) =
         (Inr (Obj [(''id'', JInt (int (next_business_id s))),
                    (''owner_id'', get content ''owner_id''), (''name'', get content ''name''),
                    (''street_address'', get content ''street_address''),
                    (''city'', get content ''city''), (''state'', get content ''state''),
                    (''zip_code'', get content ''zip_code''),
                    (''self'', JStr (base_url rq'))], 200),
          snd (post_business rq content s))"
proof -
  let ?row = "\<lparr>b_id = next_business_id s, b_owner_id = owner, b_name = name,
                b_street_address = street, b_city = city, b_state = state, b_zip_code = zipcode\<rparr>"
  let ?ps = "[(''owner_id'', get content ''owner_id''), (''name'', get content ''name''),
              (''street_address'', get content ''street_address''),
              (''city'', get content ''city''), (''state'', get content ''state''),
              (''zip_code'', get content ''zip_code'')]"
  let ?s' = "s\<lparr>businesses := businesses s @ [?row], next_business_id := Suc (next_business_id s),
               last_insert_id := next_business_id s\<rparr>"
  from reachable_keys_ok[OF assms(1)] have k: "keys_ok s" .
  have six: "len content = 6"
    by (simp add: len_card fields)
  have items: "items_of content
                 [''owner_id'', ''name'', ''street_address'', ''city'', ''state'', ''zip_code'']
               = Inr ?ps"
    using items_of_present[of "[''owner_id'', ''name'', ''street_address'', ''city'', ''state'',
        ''zip_code'']" content]
    by (simp add: fields)
  have vals: "business_values (next_business_id s) ?ps = Some ?row"
    using assms(3-8) by (simp add: business_values_def get_def)
  then have ins: "insert_business ?ps s = Inr ?s'"
    by (simp add: insert_business_def)
  have post: "post_business rq content s =
                (Inr (Obj ((''id'', JInt (int (next_business_id s))) # ?ps
                       @ [(''self'', JStr (url rq @ str_nat (next_business_id s)))]), 201), ?s')"
    unfolding post_business_def by (simp add: six items ins Let_def del: items_of.simps)
  have fresh: "next_business_id s \<notin> b_id ` set (businesses s)"
    using k by (auto simp: keys_ok_def)
  have sel: "select_business (next_business_id s) ?s' = [?row]"
    by (rule select_business_fresh[OF k]) simp
  have dict: "business_asdict ?row = (''id'', JInt (int (next_business_id s))) # ?ps"
    using assms(3-8)
    by (auto simp: business_asdict_def dest!: int_column_Some varchar_column_Some)
  have "get_business rq' (next_business_id s) ?s' =
          (Inr (Obj ((''id'', JInt (int (next_business_id s))) # ?ps
                  @ [(''self'', JStr (base_url rq'))]), 200), ?s')"
    unfolding get_business_def by (simp add: sel dict)
  with post fresh show ?thesis by simp
qed

theorem create_then_get_business_witness:
  "reachable example_db
   \<and> fst ` set example_business
       = {''owner_id'', ''name'', ''street_address'', ''city'', ''state'', ''zip_code''}
   \<and> fst (post_business (example_request ''businesses'') example_business example_db) =
       Inr (Obj [(''id'', JInt 2), (''owner_id'', JInt 7), (''name'', JStr ''Cafe''),
                 (''street_address'', JStr ''1 Main St''), (''city'', JStr ''Corvallis''),
                 (''state'', JStr ''OR''), (''zip_code'', JStr ''97330''),
                 (''self'', JStr ''http://localhost:8080/businesses2'')], 201)
   \<and> fst (get_business (example_request ''businesses/2'') 2
          (snd (post_business (example_request ''businesses'') example_business example_db))) =
       Inr (Obj [(''id'', JInt 2), (''owner_id'', JInt 7), (''name'', JStr ''Cafe''),
                 (''street_address'', JStr ''1 Main St''), (''city'', JStr ''Corvallis''),
                 (''state'', JStr ''OR''), (''zip_code'', JStr ''97330''),
                 (''self'', JStr ''http://localhost:8080/businesses/2'')], 200)"
proof -
  have f: "fst ` set example_business
       = {''owner_id'', ''name'', ''street_address'', ''city'', ''state'', ''zip_code''}"
    by (simp add: example_business_def)
  have n: "next_business_id example_db = 2"
    by (simp add: example_db_eq)
  note t = create_then_get_business[OF reachable_example_db f,
      of 7 "''Cafe''" "''1 Main St''" "''Corvallis''" "''OR''" "''97330''"
         "example_request ''businesses''" "example_request ''businesses/2''"]
  have v: "int_column (get example_business ''owner_id'') = Some 7"
    "varchar_column 50 (get example_business ''name'') = Some ''Cafe''"
    "varchar_column 100 (get example_business ''street_address'') = Some ''1 Main St''"
    "varchar_column 50 (get example_business ''city'') = Some ''Corvallis''"
    "varchar_column 2 (get example_business ''state'') = Some ''OR''"
    "varchar_column 5 (get example_business ''zip_code'') = Some ''97330''"
    by (simp_all add: example_business_def get_def int_column_def varchar_column_def)
  have u: "url (example_request ''businesses'') @ str_nat 2 = ''http://localhost:8080/businesses2''"
    "base_url (example_request ''businesses/2'') = ''http://localhost:8080/businesses/2''"
    by (simp_all add: url_def base_url_def example_request_def str_nat.simps digit_def)
  have g: "get example_business ''owner_id'' = JInt 7" "get example_business ''name'' = JStr ''Cafe''"
    "get example_business ''street_address'' = JStr ''1 Main St''"
    "get example_business ''city'' = JStr ''Corvallis''"
    "get example_business ''state'' = JStr ''OR''"
    "get example_business ''zip_code'' = JStr ''97330''"
    by (simp_all add: example_business_def get_def)
  from t[OF v] have c1: "fst (post_business (example_request ''businesses'') example_business example_db) =
       Inr (Obj [(''id'', JInt 2), (''owner_id'', JInt 7), (''name'', JStr ''Cafe''),
                 (''street_address'', JStr ''1 Main St''), (''city'', JStr ''Corvallis''),
                 (''state'', JStr ''OR''), (''zip_code'', JStr ''97330''),
                 (''self'', JStr ''http://localhost:8080/businesses2'')], 201)"
    by (simp add: n u g)
  from t[OF v] have c2: "fst (get_business (example_request ''businesses/2'') 2
          (snd (post_business (example_request ''businesses'') example_business example_db))) =
       Inr (Obj [(''id'', JInt 2), (''owner_id'', JInt 7), (''name'', JStr ''Cafe''),
                 (''street_address'', JStr ''1 Main St''), (''city'', JStr ''Corvallis''),
                 (''state'', JStr ''OR''), (''zip_code'', JStr ''97330''),
                 (''self'', JStr ''http://localhost:8080/businesses/2'')], 200)"
    by (simp add: n u g)
  show ?thesis
    by (intro conjI reachable_example_db f c1 c2)
qed

section \<open>The range of stars\<close>

text \<open>
  C9. In every reachable state \<^verbatim>\<open>stars\<close> of every stored review lies in the closed range
  from 0 to 5. Create(Review) and Update(Review) with an integer \<^verbatim>\<open>stars\<close> outside the range
  do not succeed (no 201, no 200) and leave the tables as they were. The handlers have no
  check of their own: it is the \<^verbatim>\<open>INSERT\<close> and the \<^verbatim>\<open>UPDATE\<close> statement that the store refuses,
  by the \<^verbatim>\<open>CHECK\<close> constraint of the column.
\<close>

theorem stars_in_range:
  assumes "reachable s"
  shows "(\<forall>r \<in> set (reviews s). 0 \<le> r_stars r \<and> r_stars r \<le> 5)
     \<and> (get content ''stars'' = JInt n \<and> (n < 0 \<or> 5 < n) \<longrightarrow>
          snd (post_review rq content s) = s
          \<and> (\<forall>body. fst (post_review rq content s) \<noteq> Inr (body, 201))
          \<and> snd (put_review rq' i content s) = s
          \<and> (\<forall>body. fst (put_review rq' i content s) \<noteq> Inr (body, 200))
          \<and> (\<forall>ps. get ps ''stars'' = JInt n \<longrightarrow> insert_review ps s = Inl DBAPIError)
          \<and> (\<forall>ps. get ps ''stars'' = JInt n \<and> select_review i s \<noteq> [] \<longrightarrow>
                update_review i ps s = Inl DBAPIError))"
proof (intro conjI impI allI)
  from reachable_rows_ok[OF assms] show "\<forall>r \<in> set (reviews s). 0 \<le> r_stars r \<and> r_stars r \<le> 5"
    by (simp add: review_row_ok_def)
next
  assume "get content ''stars'' = JInt n \<and> (n < 0 \<or> 5 < n)"
  then have none: "stars_column (get content ''stars'') = None"
    by (simp add: stars_column_out_of_range)
  show "snd (post_review rq content s) = s"
    using post_review_bad_stars[OF none] by simp
  show "fst (post_review rq content s) \<noteq> Inr (body, 201)" for body
    using post_review_bad_stars[OF none] by simp
  show "snd (put_review rq' i content s) = s"
    using put_review_bad_stars[OF none] by simp
  show "fst (put_review rq' i content s) \<noteq> Inr (body, 200)" for body
    using put_review_bad_stars[OF none] by simp
next
  fix ps
  assume "get content ''stars'' = JInt n \<and> (n < 0 \<or> 5 < n)" "get ps ''stars'' = JInt n"
  then show "insert_review ps s = Inl DBAPIError"
    by (simp add: insert_review_bad_stars stars_column_out_of_range)
next
  fix ps
  assume "get content ''stars'' = JInt n \<and> (n < 0 \<or> 5 < n)"
    "get ps ''stars'' = JInt n \<and> select_review i s \<noteq> []"
  then show "update_review i ps s = Inl DBAPIError"
    by (simp add: update_review_bad_stars stars_column_out_of_range)
qed

theorem stars_in_range_witness:
  "reachable example_db \<and> map r_stars (reviews example_db) = [4]
   \<and> post_review (example_request ''reviews'')
        [(''user_id'', JInt 9), (''business_id'', JInt 1), (''stars'', JInt 6)] example_db
       = (Inl DBAPIError, example_db)
   \<and> put_review (example_request ''reviews/1'') 1 [(''stars'', JInt 6)] example_db
       = (Inl DBAPIError, example_db)"
proof -
  have p: "fst (post_review (example_request ''reviews'')
        [(''user_id'', JInt 9), (''business_id'', JInt 1), (''stars'', JInt 6)] example_db)
       = Inl DBAPIError"
    unfolding example_db_eq by code_simp
  have q: "fst (put_review (example_request ''reviews/1'') 1 [(''stars'', JInt 6)] example_db)
       = Inl DBAPIError"
    unfolding example_db_eq by code_simp
  from stars_in_range[OF reachable_example_db,
      of "[(''user_id'', JInt 9), (''business_id'', JInt 1), (''stars'', JInt 6)]" 6
         "example_request ''reviews''" "example_request ''reviews/1''" 1]
  have p': "snd (post_review (example_request ''reviews'')
        [(''user_id'', JInt 9), (''business_id'', JInt 1), (''stars'', JInt 6)] example_db)
       = example_db"
    by (simp add: get_def)
  from stars_in_range[OF reachable_example_db, of "[(''stars'', JInt 6)]" 6
         "example_request ''reviews''" "example_request ''reviews/1''" 1]
  have q': "snd (put_review (example_request ''reviews/1'') 1 [(''stars'', JInt 6)] example_db)
       = example_db"
    by (simp add: get_def)
  have c1: "map r_stars (reviews example_db) = [4]"
    by (simp add: example_db_eq)
  from p p' have c2: "post_review (example_request ''reviews'')
        [(''user_id'', JInt 9), (''business_id'', JInt 1), (''stars'', JInt 6)] example_db
       = (Inl DBAPIError, example_db)"
    by (simp add: prod_eq_iff)
  from q q' have c3: "put_review (example_request ''reviews/1'') 1 [(''stars'', JInt 6)] example_db
       = (Inl DBAPIError, example_db)"
    by (simp add: prod_eq_iff)
  show ?thesis
    by (intro conjI reachable_example_db c1 c2 c3)
qed

section \<open>The self link of a created business\<close>

text \<open>
  C10. The claim: the \<^verbatim>\<open>self\<close> link in the 201 response of Create(Business) is the URL at
  which Get serves the new business, the collection URL followed by a slash and the id.
  The code appends the id to \<^verbatim>\<open>request.url\<close> with no slash between them
  (\<^verbatim>\<open>post_review\<close> writes the slash). On the empty tables, a valid business posted to
  \<^verbatim>\<open>http://localhost:8080/businesses\<close> gets the id 1 and the link
  \<^verbatim>\<open>http://localhost:8080/businesses1\<close>, while Get of business 1 at
  \<^verbatim>\<open>http://localhost:8080/businesses/1\<close> returns the link
  \<^verbatim>\<open>http://localhost:8080/businesses/1\<close>.
\<close>

theorem post_business_self_link_without_slash:
  "post_business (example_request ''businesses'') example_business create_table =
     (Inr (Obj [(''id'', JInt 1), (''owner_id'', JInt 7), (''name'', JStr ''Cafe''),
                (''street_address'', JStr ''1 Main St''), (''city'', JStr ''Corvallis''),
                (''state'', JStr ''OR''), (''zip_code'', JStr ''97330''),
                (''self'', JStr ''http://localhost:8080/businesses1'')], 201),
      run [Post_business (example_request ''businesses'') example_business] create_table)
   \<and> fst (get_business (example_request ''businesses/1'') 1
           (run [Post_business (example_request ''businesses'') example_business] create_table)) =
     Inr (Obj [(''id'', JInt 1), (''owner_id'', JInt 7), (''name'', JStr ''Cafe''),
               (''street_address'', JStr ''1 Main St''), (''city'', JStr ''Corvallis''),
               (''state'', JStr ''OR''), (''zip_code'', JStr ''97330''),
               (''self'', JStr ''http://localhost:8080/businesses/1'')], 200)"
  by code_simp

end
